theory Spec2Isabelle
  imports
    Main
    "HOL-Library.Word"
    "HOL-Library.Log_Nat"
    "HOL-Library.Char_ord"
    "HOL-Library.List_Lexorder"
begin

section \<open>Stockr: the dashboard (dosc.py) and the batch export scripts (get\_stock\_data.py)\<close>

text \<open>
  The repository is Python on top of pandas, yfinance and streamlit. The functions of the
  repository are embedded below; the library operations they call (binary64 arithmetic,
  \<^verbatim>\<open>stack\<close>, \<^verbatim>\<open>groupby().pct_change()\<close>, \<^verbatim>\<open>dropna\<close>, \<^verbatim>\<open>resample('MS').sum()\<close>,
  \<^verbatim>\<open>datetime.date\<close>) are written out as HOL functions with the behaviour of pandas 2.x and
  CPython, and the two calls that leave the process (\<^verbatim>\<open>yf.download\<close>, \<^verbatim>\<open>pd.to_datetime\<close> on
  user input) are parameters of the model.
\<close>

subsection \<open>binary64 values\<close>

text \<open>
  A pandas float column holds IEEE 754 binary64 values. A value is NaN, a signed infinity,
  or a sign with a magnitude (\<open>Fin True 0\<close> is \<^verbatim>\<open>-0.0\<close>). The magnitude is kept as the exact
  rational the bit pattern denotes, and every operation rounds its exact result to the nearest
  representable value, ties to even, as the hardware does.
\<close>

datatype f64 = NaN | Inf bool | Fin bool rat

definition is_nan :: "f64 \<Rightarrow> bool" where
  "is_nan x = (x = NaN)"

definition pow2 :: "int \<Rightarrow> rat" where
  "pow2 e = (if 0 \<le> e then 2 ^ nat e else 1 / 2 ^ nat (- e))"

text \<open>The exponent of a positive rational: the \<open>e\<close> with \<open>2^e \<le> x < 2^(e+1)\<close>.\<close>

definition ilog2 :: "rat \<Rightarrow> int" where
  "ilog2 x =
     (if 1 \<le> x then bitlen \<lfloor>x\<rfloor> - 1
      else (let k = bitlen \<lfloor>1 / x\<rfloor> - 1 in if x = pow2 (- k) then - k else - k - 1))"

definition round_half_even :: "rat \<Rightarrow> int" where
  "round_half_even x =
     (let f = \<lfloor>x\<rfloor>; d = x - of_int f in
      if d < 1 / 2 then f
      else if 1 / 2 < d then f + 1
      else if even f then f else f + 1)"

text \<open>
  Rounding a non-negative magnitude to 53 significant bits; below \<open>2^-1022\<close> the spacing stays
  \<open>2^-1074\<close> (subnormals). \<open>None\<close> is overflow.
\<close>

definition round_mag :: "rat \<Rightarrow> rat option" where
  "round_mag x =
     (if x = 0 then Some 0
      else (let e = max (ilog2 x) (- 1022);
                q = pow2 (e - 52);
                y = of_int (round_half_even (x / q)) * q
            in if e < 1023 then Some y
               else if pow2 1024 \<le> y then None else Some y))"

definition rnd :: "bool \<Rightarrow> rat \<Rightarrow> f64" where
  "rnd s x = (case round_mag x of None \<Rightarrow> Inf s | Some y \<Rightarrow> Fin s y)"

definition signed :: "bool \<Rightarrow> rat \<Rightarrow> rat" where
  "signed s m = (if s then - m else m)"

fun fdiv :: "f64 \<Rightarrow> f64 \<Rightarrow> f64" where
  "fdiv NaN _ = NaN"
| "fdiv _ NaN = NaN"
| "fdiv (Inf s) (Inf t) = NaN"
| "fdiv (Inf s) (Fin t b) = Inf (s \<noteq> t)"
| "fdiv (Fin s a) (Inf t) = Fin (s \<noteq> t) 0"
| "fdiv (Fin s a) (Fin t b) =
     (if b = 0 then (if a = 0 then NaN else Inf (s \<noteq> t))
      else rnd (s \<noteq> t) (a / b))"

fun fmul :: "f64 \<Rightarrow> f64 \<Rightarrow> f64" where
  "fmul NaN _ = NaN"
| "fmul _ NaN = NaN"
| "fmul (Inf s) (Inf t) = Inf (s \<noteq> t)"
| "fmul (Inf s) (Fin t b) = (if b = 0 then NaN else Inf (s \<noteq> t))"
| "fmul (Fin s a) (Inf t) = (if a = 0 then NaN else Inf (s \<noteq> t))"
| "fmul (Fin s a) (Fin t b) = rnd (s \<noteq> t) (a * b)"

fun fadd :: "f64 \<Rightarrow> f64 \<Rightarrow> f64" where
  "fadd NaN _ = NaN"
| "fadd _ NaN = NaN"
| "fadd (Inf s) (Inf t) = (if s = t then Inf s else NaN)"
| "fadd (Inf s) (Fin t b) = Inf s"
| "fadd (Fin s a) (Inf t) = Inf t"
| "fadd (Fin s a) (Fin t b) =
     (let v = signed s a + signed t b in
      if v = 0 then Fin (s \<and> t) 0 else rnd (v < 0) \<bar>v\<bar>)"

fun fneg :: "f64 \<Rightarrow> f64" where
  "fneg NaN = NaN"
| "fneg (Inf s) = Inf (\<not> s)"
| "fneg (Fin s a) = Fin (\<not> s) a"

definition fsub :: "f64 \<Rightarrow> f64 \<Rightarrow> f64" where
  "fsub x y = fadd x (fneg y)"


subsection \<open>Calendar dates\<close>

text \<open>
  The \<^verbatim>\<open>Date\<close> column of a daily yfinance table holds midnight timestamps, one per trading
  day; a value is kept as its calendar date. Dates are compared, and subtracted, through their
  proleptic Gregorian ordinal, computed as CPython's \<^verbatim>\<open>datetime\<close> does
  (\<^verbatim>\<open>_is_leap\<close>, \<^verbatim>\<open>_days_before_year\<close>, \<^verbatim>\<open>_days_before_month\<close>, \<^verbatim>\<open>_ymd2ord\<close>).
\<close>

record date =
  year :: int
  month :: int
  day :: int

definition is_leap :: "int \<Rightarrow> bool" where
  "is_leap y = (y mod 4 = 0 \<and> (y mod 100 \<noteq> 0 \<or> y mod 400 = 0))"

definition days_before_year :: "int \<Rightarrow> int" where
  "days_before_year y = (let p = y - 1 in p * 365 + p div 4 - p div 100 + p div 400)"

definition days_in_month :: "int \<Rightarrow> int \<Rightarrow> int" where
  "days_in_month y m =
     (if m = 2 \<and> is_leap y then 29
      else [31, 28, 31, 30, 31, 30, 31, 31, 30, 31, 30, 31] ! nat (m - 1))"

definition days_before_month :: "int \<Rightarrow> int \<Rightarrow> int" where
  "days_before_month y m =
     [0, 31, 59, 90, 120, 151, 181, 212, 243, 273, 304, 334] ! nat (m - 1)
       + (if 2 < m \<and> is_leap y then 1 else 0)"

definition toordinal :: "date \<Rightarrow> int" where
  "toordinal d = days_before_year (year d) + days_before_month (year d) (month d) + day d"

text \<open>What the constructor of \<^verbatim>\<open>datetime.date\<close> accepts.\<close>

definition valid_date :: "date \<Rightarrow> bool" where
  "valid_date d =
     (1 \<le> year d \<and> year d \<le> 9999 \<and> 1 \<le> month d \<and> month d \<le> 12 \<and>
      1 \<le> day d \<and> day d \<le> days_in_month (year d) (month d))"

subsection \<open>Tables\<close>

text \<open>
  With \<^verbatim>\<open>auto_adjust=True\<close> yfinance delivers the price fields Close, High, Low, Open
  (binary64, NaN where a value is missing) and Volume (a share count, int64). The final
  long table carries \<^verbatim>\<open>Date\<close>, \<^verbatim>\<open>Ticker\<close> and, after line 29, \<^verbatim>\<open>Daily_Return\<close>.
\<close>

record quote =
  Close :: f64
  High :: f64
  Low :: f64
  Open :: f64
  Volume :: "64 word"

record row = quote +
  Date :: date
  Ticker :: string

record obs = row +
  Daily_Return :: f64

text \<open>
  What \<^verbatim>\<open>yf.download\<close> returns: a table whose columns are a two-level index (field, ticker),
  given by its tickers and, per date of the index, one cell per ticker (\<open>None\<close> where the
  ticker has no quote on that date, so that all its fields are NaN); or a table with flat
  columns, for a single ticker.
\<close>

datatype table =
  Multi "string list" "(date \<times> quote option list) list"
| Flat "(date \<times> quote) list"

text \<open>\<^verbatim>\<open>DataFrame.empty\<close>: some axis has length 0.\<close>

fun empty_table :: "table \<Rightarrow> bool" where
  "empty_table (Multi tickers rows) = (tickers = [] \<or> rows = [])"
| "empty_table (Flat rows) = (rows = [])"

datatype exn =
  ValueError string | IndexError string | KeyError string | OverflowError string
| TypeError string | OtherError string

fun exn_str :: "exn \<Rightarrow> string" where
  "exn_str (ValueError s) = s"
| "exn_str (IndexError s) = s"
| "exn_str (KeyError s) = [CHR 0x27] @ s @ [CHR 0x27]"
| "exn_str (OverflowError s) = s"
| "exn_str (TypeError s) = s"
| "exn_str (OtherError s) = s"

datatype msg = Success string | Warning string | Error string | Info string

subsection \<open>\<^verbatim>\<open>get_stock_data\<close> (dosc.py, lines 12 to 34)\<close>

definition long_row :: "date \<Rightarrow> string \<Rightarrow> quote \<Rightarrow> row" where
  "long_row d t q =
     \<lparr>Close = Close q, High = High q, Low = Low q, Open = Open q, Volume = Volume q,
      Date = d, Ticker = t\<rparr>"

text \<open>
  \<^verbatim>\<open>all_data.stack(level=1).rename_axis(['Date', 'Ticker']).reset_index()\<close>: one row per
  date and ticker, the tickers of a date in the sorted order of the column level, and no row
  where every field is NaN (\<^verbatim>\<open>dropna=True\<close>, the default of \<^verbatim>\<open>stack\<close>).
\<close>

definition stack_row :: "string list \<Rightarrow> date \<times> quote option list \<Rightarrow> row list" where
  "stack_row tickers dr =
     (case dr of (d, cells) \<Rightarrow>
        concat (map (\<lambda>(t, c). case c of None \<Rightarrow> [] | Some q \<Rightarrow> [long_row d t q])
                 (sort_key fst (zip tickers cells))))"

definition stack :: "string list \<Rightarrow> (date \<times> quote option list) list \<Rightarrow> row list" where
  "stack tickers rows = concat (map (stack_row tickers) rows)"

text \<open>Lines 23 to 27; \<^verbatim>\<open>ticker_symbols[0]\<close> raises on an empty list.\<close>

fun long_table :: "string list \<Rightarrow> table \<Rightarrow> exn + row list" where
  "long_table ticker_symbols (Multi tickers rows) = Inr (stack tickers rows)"
| "long_table ticker_symbols (Flat rows) =
     (case ticker_symbols of
        [] \<Rightarrow> Inl (IndexError ''list index out of range'')
      | t # _ \<Rightarrow> Inr (map (\<lambda>(d, q). long_row d t q) rows))"

text \<open>
  \<^verbatim>\<open>df.groupby('Ticker')['Close'].pct_change()\<close> is \<^verbatim>\<open>filled / shifted - 1\<close>, row by row
  in the order of the table: \<^verbatim>\<open>shifted\<close> is the value of the previous row of the same
  ticker, NaN on the first. \<open>prev\<close> maps a ticker to that value. Up to pandas 2 a missing
  close is first filled with the last one of its group (\<^verbatim>\<open>fill_method='pad'\<close>); later
  versions do not fill: \<open>pad\<close> says which.
\<close>

fun pct_change_grouped :: "bool \<Rightarrow> (string \<rightharpoonup> f64) \<Rightarrow> row list \<Rightarrow> f64 list" where
  "pct_change_grouped pad prev [] = []"
| "pct_change_grouped pad prev (r # rs) =
     (let filled = (if pad \<and> is_nan (Close r)
                    then (case prev (Ticker r) of None \<Rightarrow> Close r | Some p \<Rightarrow> p)
                    else Close r);
          shifted = (case prev (Ticker r) of None \<Rightarrow> NaN | Some p \<Rightarrow> p)
      in fsub (fdiv filled shifted) (Fin False 1)
           # pct_change_grouped pad (prev(Ticker r \<mapsto> filled)) rs)"

definition times_100 :: "f64 list \<Rightarrow> f64 list" where
  "times_100 xs = map (\<lambda>x. fmul x (Fin False 100)) xs"

definition with_return :: "row \<Rightarrow> f64 \<Rightarrow> obs" where
  "with_return r x =
     \<lparr>Close = Close r, High = High r, Low = Low r, Open = Open r, Volume = Volume r,
      Date = Date r, Ticker = Ticker r, Daily_Return = x\<rparr>"

text \<open>\<^verbatim>\<open>df['Daily_Return'] = ...\<close>: the series has the index of \<open>df\<close>.\<close>

definition assign_return :: "row list \<Rightarrow> f64 list \<Rightarrow> obs list" where
  "assign_return df xs = map (\<lambda>(r, x). with_return r x) (zip df xs)"

definition dropna :: "obs list \<Rightarrow> obs list" where
  "dropna df = filter (\<lambda>r. \<not> is_nan (Daily_Return r)) df"

definition download_failed :: "exn \<Rightarrow> msg" where
  "download_failed e =
     Error (''Download failed. Please check your ticker symbols or network connection. Error: ''
            @ exn_str e)"

text \<open>
  The function returns the frame or \<^verbatim>\<open>None\<close>; the streamlit messages it shows are the
  first component. \<open>download\<close> is \<^verbatim>\<open>yf.download\<close>, which returns a table or raises.
\<close>

definition get_stock_data ::
  "bool \<Rightarrow> (string list \<Rightarrow> string \<Rightarrow> exn + table) \<Rightarrow> string list \<Rightarrow> string
     \<Rightarrow> msg list \<times> obs list option" where
  "get_stock_data pad download ticker_symbols period =
     (case download ticker_symbols period of
        Inl e \<Rightarrow> ([download_failed e], None)
      | Inr all_data \<Rightarrow>
          if empty_table all_data
          then ([Warning ''No data found for the given tickers. Please check the symbols.''],
                None)
          else (case long_table ticker_symbols all_data of
                  Inl e \<Rightarrow> ([download_failed e], None)
                | Inr df \<Rightarrow>
                    ([], Some (dropna (assign_return df
                                 (times_100 (pct_change_grouped pad Map.empty df)))))))"

text \<open>
  Lines 235, 236 and 292, 293: what the page does with the value returned; the branch taken
  when a frame was loaded is \<open>Inr\<close>.
\<close>

definition load_branch :: "obs list option \<Rightarrow> msg + obs list" where
  "load_branch full_stock_data =
     (case full_stock_data of
        None \<Rightarrow> Inl (Warning ''No stock data was loaded. Please check tickers and try again.'')
      | Some df \<Rightarrow>
          if df \<noteq> [] then Inr df
          else Inl (Warning ''No stock data was loaded. Please check tickers and try again.''))"

subsection \<open>The page: period filter and ticker selection (dosc.py, lines 215 to 251)\<close>

datatype period_label = P_1M | P_6M | P_1Y | P_3Y | P_5Y | P_All

datatype period_value = Days int | Max

fun period_options :: "period_label \<Rightarrow> period_value" where
  "period_options P_1M = Days 30"
| "period_options P_6M = Days 180"
| "period_options P_1Y = Days 365"
| "period_options P_3Y = Days (3 * 365)"
| "period_options P_5Y = Days (5 * 365)"
| "period_options P_All = Max"

text \<open>
  \<^verbatim>\<open>end_date - datetime.timedelta(days=days)\<close>: CPython adds the days to the ordinal and
  raises when the result leaves the range of \<^verbatim>\<open>date\<close>. The resulting date is kept as its
  ordinal, which is what the comparison of line 249 compares.
\<close>

definition date_minus_days :: "date \<Rightarrow> int \<Rightarrow> exn + int" where
  "date_minus_days d n =
     (let k = toordinal d - n in
      if 0 < k \<and> k \<le> 3652059 then Inr k else Inl (OverflowError ''date value out of range''))"

definition filtered_data :: "date \<Rightarrow> period_label \<Rightarrow> obs list \<Rightarrow> exn + obs list" where
  "filtered_data end_date current_period full_stock_data =
     (if current_period = P_All then Inr full_stock_data
      else (case period_options current_period of
              Max \<Rightarrow> Inl (TypeError ''unsupported type for timedelta days component: str'')
            | Days days \<Rightarrow>
                (case date_minus_days end_date days of
                   Inl e \<Rightarrow> Inl e
                 | Inr start_date \<Rightarrow>
                     Inr (filter (\<lambda>r. start_date \<le> toordinal (Date r)) full_stock_data))))"

definition selected_data ::
  "date \<Rightarrow> period_label \<Rightarrow> string \<Rightarrow> obs list \<Rightarrow> exn + obs list" where
  "selected_data end_date current_period selected_ticker full_stock_data =
     (case filtered_data end_date current_period full_stock_data of
        Inl e \<Rightarrow> Inl e
      | Inr filtered \<Rightarrow> Inr (filter (\<lambda>r. Ticker r = selected_ticker) filtered))"

subsection \<open>The volume chart (dosc.py, lines 60 to 77)\<close>

text \<open>\<^verbatim>\<open>df['Date'].min()\<close> and \<^verbatim>\<open>.max()\<close>; \<open>None\<close> is \<^verbatim>\<open>NaT\<close>, for a frame without rows.\<close>

definition min_date :: "date list \<Rightarrow> date option" where
  "min_date ds =
     (case ds of [] \<Rightarrow> None
      | d # ds' \<Rightarrow> Some (fold (\<lambda>x m. if toordinal x < toordinal m then x else m) ds' d))"

definition max_date :: "date list \<Rightarrow> date option" where
  "max_date ds =
     (case ds of [] \<Rightarrow> None
      | d # ds' \<Rightarrow> Some (fold (\<lambda>x m. if toordinal m < toordinal x then x else m) ds' d))"

text \<open>Line 61; the \<^verbatim>\<open>.days\<close> of \<^verbatim>\<open>NaT\<close> is NaN, here \<open>None\<close>.\<close>

definition time_delta_days :: "obs list \<Rightarrow> int option" where
  "time_delta_days df =
     (case (max_date (map Date df), min_date (map Date df)) of
        (Some hi, Some lo) \<Rightarrow> Some (toordinal hi - toordinal lo)
      | _ \<Rightarrow> None)"

text \<open>
  \<^verbatim>\<open>df.set_index('Date')['Volume'].resample('MS').sum().reset_index()\<close>: one bin per
  calendar month from the month of the earliest date to the month of the latest, labelled
  with the first day of the month, holding the int64 sum of the volumes of its rows (0 for a
  month without rows).
\<close>

definition month_index :: "date \<Rightarrow> int" where
  "month_index d = year d * 12 + (month d - 1)"

definition month_start :: "int \<Rightarrow> date" where
  "month_start k = \<lparr>year = k div 12, month = k mod 12 + 1, day = 1\<rparr>"

definition resample_MS_sum :: "obs list \<Rightarrow> (date \<times> 64 word) list" where
  "resample_MS_sum df =
     (case (min_date (map Date df), max_date (map Date df)) of
        (Some lo, Some hi) \<Rightarrow>
          map (\<lambda>k. (month_start k,
                    sum_list (map Volume (filter (\<lambda>r. month_index (Date r) = k) df))))
            [month_index lo..month_index hi]
      | _ \<Rightarrow> [])"

datatype granularity = Daily | Monthly

text \<open>
  The bars of the volume figure (x, y) and which title it gets; a comparison with NaN is
  false.
\<close>

definition volume_chart :: "obs list \<Rightarrow> granularity \<times> (date \<times> 64 word) list" where
  "volume_chart df =
     (if (case time_delta_days df of None \<Rightarrow> False | Some n \<Rightarrow> 730 < n)
      then (Monthly, resample_MS_sum df)
      else (Daily, map (\<lambda>r. (Date r, Volume r)) df))"

text \<open>
  Lines 260 to 277, the first tab: the indicators read the last row (\<^verbatim>\<open>iloc[-1]\<close>) and
  the charts are drawn only when \<^verbatim>\<open>selected_data\<close> has rows.
\<close>

datatype tab1_view =
  Indicators obs granularity "(date \<times> 64 word) list"
| No_Data msg

definition tab1 :: "obs list \<Rightarrow> tab1_view" where
  "tab1 selected =
     (if selected \<noteq> []
      then (case volume_chart selected of (g, bars) \<Rightarrow> Indicators (last selected) g bars)
      else No_Data (Warning ''No data available for the selected ticker in this time period.''))"

subsection \<open>The batch export scripts (get\_stock\_data.py)\<close>

text \<open>
  The file holds two scripts: lines 1 to 84, and lines 87 to 148. Each reads two date
  strings, parses them with \<^verbatim>\<open>pd.to_datetime\<close>, downloads one frame per ticker and writes one
  CSV file. \<open>to_datetime\<close> and \<open>download\<close> are the two library calls, and \<open>show\<close> is
  \<^verbatim>\<open>str\<close> of a timestamp; the type \<open>'ts\<close> of timestamps is left open.

  A downloaded frame has a date index named \<^verbatim>\<open>Date\<close>, column labels that are strings or,
  for a two-level column index, tuples, and numeric cells.
\<close>

datatype colname = Plain string | Tuple string string

datatype num = F f64 | I "64 word"

record raw_frame =
  columns :: "colname list"
  records :: "(date \<times> num list) list"

datatype cell = N num | S string | D date

text \<open>A frame to be written: its column labels, the index first, and its rows.\<close>

record out_frame =
  header :: "colname list"
  body :: "cell list list"

datatype ending = Completed | SystemExit "int option" | Uncaught exn

text \<open>The exit status of the interpreter; \<^verbatim>\<open>exit()\<close> raises \<^verbatim>\<open>SystemExit(None)\<close>.\<close>

fun exit_status :: "ending \<Rightarrow> int" where
  "exit_status Completed = 0"
| "exit_status (SystemExit None) = 0"
| "exit_status (SystemExit (Some n)) = n"
| "exit_status (Uncaught e) = 1"

text \<open>\<^verbatim>\<open>str\<close> of a natural number.\<close>

fun show_nat :: "nat \<Rightarrow> string" where
  "show_nat n =
     (if n < 10 then [char_of (48 + n)]
      else show_nat (n div 10) @ [char_of (48 + n mod 10)])"

text \<open>
  What a run of a script did: the lines it printed, the tickers it asked \<^verbatim>\<open>yf.download\<close> for,
  the file it wrote, and how it ended. Of the printed lines, the debugging dumps of frames
  in the second script (lines 115 to 121 and 136 to 143) are left out.
\<close>

record run =
  printed :: "string list"
  downloads :: "string list"
  csv :: "(string \<times> out_frame) option"
  status :: ending

definition frame_empty :: "raw_frame \<Rightarrow> bool" where
  "frame_empty fr = (columns fr = [] \<or> records fr = [])"

text \<open>\<^verbatim>\<open>col[0] if isinstance(col, tuple) else col\<close>, also the key of \<^verbatim>\<open>df['Close']\<close>.\<close>

fun flat_label :: "colname \<Rightarrow> string" where
  "flat_label (Plain s) = s"
| "flat_label (Tuple a b) = a"

text \<open>
  The label of a column added by \<^verbatim>\<open>df[name] = ...\<close>: under a two-level column index the
  key is padded to a tuple.
\<close>

definition new_label :: "colname list \<Rightarrow> string \<Rightarrow> colname" where
  "new_label cols name =
     (case cols of Tuple a b # _ \<Rightarrow> Tuple name [] | _ \<Rightarrow> Plain name)"

text \<open>The cell of a row under a label; a frame is rectangular, so the default is not reached.\<close>

definition cell_of :: "string \<Rightarrow> string list \<Rightarrow> num list \<Rightarrow> num" where
  "cell_of name labels cells =
     (case map_of (zip labels cells) name of Some c \<Rightarrow> c | None \<Rightarrow> F NaN)"

fun to_float :: "num \<Rightarrow> f64" where
  "to_float (F x) = x"
| "to_float (I n) = rnd (sint n < 0) (of_int \<bar>sint n\<bar>)"

text \<open>\<^verbatim>\<open>Series.pct_change()\<close>: \<^verbatim>\<open>filled / shifted - 1\<close> along one column.\<close>

fun pct_change :: "bool \<Rightarrow> f64 option \<Rightarrow> f64 list \<Rightarrow> f64 list" where
  "pct_change pad prev [] = []"
| "pct_change pad prev (c # cs) =
     (let filled = (if pad \<and> is_nan c then (case prev of None \<Rightarrow> c | Some p \<Rightarrow> p) else c);
          shifted = (case prev of None \<Rightarrow> NaN | Some p \<Rightarrow> p)
      in fsub (fdiv filled shifted) (Fin False 1) # pct_change pad (Some filled) cs)"

definition required_financial_cols :: "string list" where
  "required_financial_cols = [''Open'', ''High'', ''Low'', ''Close'', ''Volume'']"

text \<open>
  First script, lines 33 to 68, for a frame that was downloaded: the lines printed and the
  frame appended to \<^verbatim>\<open>all_stock_data\<close>, if any.
\<close>

definition process_ticker_1 :: "bool \<Rightarrow> string \<Rightarrow> raw_frame \<Rightarrow> string list \<times> out_frame option" where
  "process_ticker_1 pad ticker fr =
     (if frame_empty fr
      then ([''No data found for '' @ ticker @ '' in the specified date range. Skipping.''],
            None)
      else
        (let labels = map flat_label (columns fr @ [new_label (columns fr) ''Ticker'']);
             existing_financial_cols = filter (\<lambda>col. col \<in> set labels) required_financial_cols
         in if length existing_financial_cols < length required_financial_cols
            then ([''Warning: Not all required financial columns found for '' @ ticker
                     @ ''. Skipping.''], None)
            else
              (let selected = map (\<lambda>(d, cells).
                                 (d, map (\<lambda>col. cell_of col labels cells) existing_financial_cols))
                               (records fr);
                   daily_return = times_100 (pct_change pad None
                     (map (\<lambda>(d, cells). to_float (cell_of ''Close'' existing_financial_cols cells))
                        selected));
                   kept = filter (\<lambda>(r, x). \<not> is_nan x) (zip selected daily_return)
               in ([],
                   Some \<lparr>header = map Plain (''Date'' # existing_financial_cols
                                               @ [''Ticker'', ''Daily_Return'']),
                         body = map (\<lambda>((d, cells), x). D d # map N cells @ [S ticker, N (F x)])
                                  kept\<rparr>))))"

text \<open>
  \<^verbatim>\<open>pd.concat\<close>: the columns are the union of the frames' columns in order of appearance,
  a cell a frame does not have is NaN.
\<close>

definition concat_frames :: "out_frame list \<Rightarrow> out_frame" where
  "concat_frames fs =
     (let hdr = rev (remdups (rev (concat (map header fs))))
      in \<lparr>header = hdr,
          body = concat (map (\<lambda>f. map (\<lambda>cells.
                    map (\<lambda>c. case map_of (zip (header f) cells) c of
                                Some v \<Rightarrow> v | None \<Rightarrow> N (F NaN)) hdr) (body f)) fs)\<rparr>)"

text \<open>The loop of lines 27 to 72: printed lines, tickers downloaded, frames collected.\<close>

fun export_loop_1 ::
  "bool \<Rightarrow> (string \<Rightarrow> 'ts \<Rightarrow> 'ts \<Rightarrow> exn + raw_frame) \<Rightarrow> ('ts \<Rightarrow> string) \<Rightarrow> 'ts \<Rightarrow> 'ts
     \<Rightarrow> string list \<Rightarrow> string list \<times> string list \<times> out_frame list" where
  "export_loop_1 pad download show start_date end_date [] = ([], [], [])"
| "export_loop_1 pad download show start_date end_date (ticker # tickers) =
     (let announce = [CHR 0x0A] @ ''Downloading data for '' @ ticker @ '' from '' @ show start_date
                       @ '' to '' @ show end_date @ ''...'';
          (lines, frame) =
            (case download ticker start_date end_date of
               Inl e \<Rightarrow> ([''Error downloading data for '' @ ticker @ '': '' @ exn_str e], None)
             | Inr fr \<Rightarrow> process_ticker_1 pad ticker fr);
          (more_lines, more_downloads, more_frames) =
            export_loop_1 pad download show start_date end_date tickers
      in (announce # lines @ more_lines, ticker # more_downloads,
          (case frame of None \<Rightarrow> more_frames | Some f \<Rightarrow> f # more_frames)))"

definition ticker_symbols_1 :: "string list" where
  "ticker_symbols_1 = [''AAPL'', ''GOOGL'', ''MSFT'']"

text \<open>\<^verbatim>\<open>os.path.join(output_dir, "combined_stock_data.csv")\<close> on Windows.\<close>

definition output_filename_1 :: string where
  "output_filename_1 =
     ''F:'' @ [CHR 0x5C] @ ''finance_projects'' @ [CHR 0x5C] @ ''combined_stock_data.csv''"

text \<open>Lines 19 to 21 handle \<^verbatim>\<open>ValueError\<close> only; any other exception ends the script.\<close>

fun invalid_date_1 :: "exn \<Rightarrow> run" where
  "invalid_date_1 (ValueError m) =
     \<lparr>printed = [''Invalid date format. Please use YYYY-MM-DD.''], downloads = [], csv = None,
      status = SystemExit None\<rparr>"
| "invalid_date_1 e = \<lparr>printed = [], downloads = [], csv = None, status = Uncaught e\<rparr>"

definition script_1 ::
  "bool \<Rightarrow> (string \<Rightarrow> exn + 'ts) \<Rightarrow> (string \<Rightarrow> 'ts \<Rightarrow> 'ts \<Rightarrow> exn + raw_frame) \<Rightarrow> ('ts \<Rightarrow> string)
     \<Rightarrow> string \<Rightarrow> string \<Rightarrow> run" where
  "script_1 pad to_datetime download show start_date_str end_date_str =
     (case to_datetime start_date_str of
        Inl e \<Rightarrow> invalid_date_1 e
      | Inr start_date \<Rightarrow>
          (case to_datetime end_date_str of
             Inl e \<Rightarrow> invalid_date_1 e
           | Inr end_date \<Rightarrow>
               (case export_loop_1 pad download show start_date end_date ticker_symbols_1 of
                  (lines, asked, all_stock_data) \<Rightarrow>
                    if all_stock_data = []
                    then \<lparr>printed = lines @ [''No stock data was successfully downloaded for ''
                                               @ ''any ticker. Exiting.''],
                          downloads = asked, csv = None, status = SystemExit None\<rparr>
                    else \<lparr>printed = lines @ [[CHR 0x0A] @ ''Combined data for ''
                                               @ show_nat (length ticker_symbols_1)
                                               @ '' tickers saved to '' @ output_filename_1],
                          downloads = asked,
                          csv = Some (output_filename_1, concat_frames all_stock_data),
                          status = Completed\<rparr>)))"

text \<open>
  Second script, lines 123 to 129, for a frame that was downloaded. \<^verbatim>\<open>df['Close']\<close> raises
  \<^verbatim>\<open>KeyError\<close> when no column has that key. The index is kept as the first column,
  where \<^verbatim>\<open>to_csv(index=True)\<close> writes it.
\<close>

definition process_ticker_2 :: "bool \<Rightarrow> string \<Rightarrow> raw_frame \<Rightarrow> exn + string list \<times> out_frame option" where
  "process_ticker_2 pad ticker fr =
     (if \<not> frame_empty fr
      then
        (let labels = map flat_label (columns fr)
         in if ''Close'' \<notin> set labels then Inl (KeyError ''Close'')
            else
              (let daily_return = times_100 (pct_change pad None
                     (map (\<lambda>(d, cells). to_float (cell_of ''Close'' labels cells)) (records fr)))
               in Inr ([],
                       Some \<lparr>header = Plain ''Date'' # columns fr
                                        @ [new_label (columns fr) ''Ticker'',
                                           new_label (columns fr) ''Daily_Return''],
                             body = map (\<lambda>((d, cells), x).
                                      D d # map N cells @ [S ticker, N (F x)])
                                      (zip (records fr) daily_return)\<rparr>)))
      else Inr ([''No data found for '' @ ticker @ '' in the specified date range. Skipping.''],
                None))"

fun export_loop_2 ::
  "bool \<Rightarrow> (string \<Rightarrow> 'ts \<Rightarrow> 'ts \<Rightarrow> exn + raw_frame) \<Rightarrow> ('ts \<Rightarrow> string) \<Rightarrow> 'ts \<Rightarrow> 'ts
     \<Rightarrow> string list \<Rightarrow> string list \<times> string list \<times> out_frame list" where
  "export_loop_2 pad download show start_date end_date [] = ([], [], [])"
| "export_loop_2 pad download show start_date end_date (ticker # tickers) =
     (let announce = [CHR 0x0A] @ ''Downloading data for '' @ ticker @ '' from '' @ show start_date
                       @ '' to '' @ show end_date @ ''...'';
          failed = (\<lambda>e. ([''Failed to download data for '' @ ticker @ '': '' @ exn_str e], None));
          (lines, frame) =
            (case download ticker start_date end_date of
               Inl e \<Rightarrow> failed e
             | Inr fr \<Rightarrow> (case process_ticker_2 pad ticker fr of Inl e \<Rightarrow> failed e | Inr r \<Rightarrow> r));
          (more_lines, more_downloads, more_frames) =
            export_loop_2 pad download show start_date end_date tickers
      in (announce # lines @ more_lines, ticker # more_downloads,
          (case frame of None \<Rightarrow> more_frames | Some f \<Rightarrow> f # more_frames)))"

definition ticker_symbols_2 :: "string list" where
  "ticker_symbols_2 = [''AAPL'', ''GOOGL'', ''MSFT'', ''TSLA'']"

definition output_filepath_2 :: string where
  "output_filepath_2 =
     ''F:'' @ [CHR 0x5C] @ ''finance_projects'' @ [CHR 0x5C] @ ''combined_stock_data.csv''"

text \<open>Lines 105 and 106 are not inside a \<^verbatim>\<open>try\<close>: an exception of the parser ends the script.\<close>

definition script_2 ::
  "bool \<Rightarrow> (string \<Rightarrow> exn + 'ts) \<Rightarrow> (string \<Rightarrow> 'ts \<Rightarrow> 'ts \<Rightarrow> exn + raw_frame) \<Rightarrow> ('ts \<Rightarrow> string)
     \<Rightarrow> string \<Rightarrow> string \<Rightarrow> run" where
  "script_2 pad to_datetime download show start_date_str end_date_str =
     (case to_datetime start_date_str of
        Inl e \<Rightarrow> \<lparr>printed = [], downloads = [], csv = None, status = Uncaught e\<rparr>
      | Inr start_date \<Rightarrow>
          (case to_datetime end_date_str of
             Inl e \<Rightarrow> \<lparr>printed = [], downloads = [], csv = None, status = Uncaught e\<rparr>
           | Inr end_date \<Rightarrow>
               (case export_loop_2 pad download show start_date end_date ticker_symbols_2 of
                  (lines, asked, all_stock_data) \<Rightarrow>
                    if all_stock_data \<noteq> []
                    then \<lparr>printed = lines @ [[CHR 0x0A] @ ''Combined data for ''
                                               @ show_nat (length all_stock_data)
                                               @ '' tickers saved to '' @ output_filepath_2],
                          downloads = asked,
                          csv = Some (output_filepath_2, concat_frames all_stock_data),
                          status = Completed\<rparr>
                    else \<lparr>printed = lines @ [''No data was downloaded for any ticker in the ''
                                               @ ''specified range.''],
                          downloads = asked, csv = None, status = Completed\<rparr>)))"

subsection \<open>Auxiliary definitions\<close>

text \<open>
  What yfinance guarantees of the table it returns: the dates of the index are strictly
  ascending and no ticker labels two columns.
\<close>

definition strictly_ascending :: "date list \<Rightarrow> bool" where
  "strictly_ascending ds = sorted_wrt (\<lambda>a b. toordinal a < toordinal b) ds"

fun well_formed_table :: "table \<Rightarrow> bool" where
  "well_formed_table (Multi tickers rows) =
     (distinct tickers \<and> strictly_ascending (map fst rows))"
| "well_formed_table (Flat rows) = strictly_ascending (map fst rows)"

text \<open>
  The frame after line 29, before \<^verbatim>\<open>dropna\<close>, from any state of the previous closes;
  \<^verbatim>\<open>get_stock_data\<close> starts from the empty state.
\<close>

definition returns_frame :: "bool \<Rightarrow> (string \<rightharpoonup> f64) \<Rightarrow> row list \<Rightarrow> obs list" where
  "returns_frame pad prev df = assign_return df (times_100 (pct_change_grouped pad prev df))"

text \<open>The returns of one group, from its closes and the value shifted into its first row.\<close>

definition pct_return :: "f64 \<Rightarrow> f64 \<Rightarrow> f64" where
  "pct_return c p = fmul (fsub (fdiv c p) (Fin False 1)) (Fin False 100)"

fun group_pct :: "f64 \<Rightarrow> f64 list \<Rightarrow> f64 list" where
  "group_pct p [] = []"
| "group_pct p (c # cs) = pct_return c p # group_pct c cs"

text \<open>An observation lies in the window of a period: the words of the specification.\<close>

definition within_window :: "date \<Rightarrow> period_label \<Rightarrow> obs \<Rightarrow> bool" where
  "within_window today p r =
     (case period_options p of Max \<Rightarrow> True | Days n \<Rightarrow> toordinal today - n \<le> toordinal (Date r))"

text \<open>The ordinal of the day before the first of the month with index \<open>k\<close>.\<close>

definition month_first :: "int \<Rightarrow> int" where
  "month_first k = days_before_year (k div 12) + days_before_month (k div 12) (k mod 12 + 1)"

subsection \<open>Example inputs\<close>

definition two_tickers :: table where
  "two_tickers =
     Multi [''MSFT'', ''AAPL'']
       [(\<lparr>year = 2024, month = 1, day = 2\<rparr>,
           [Some \<lparr>Close = Fin False 370, High = Fin False 375, Low = Fin False 366,
                  Open = Fin False 373, Volume = 25258600\<rparr>,
            None]),
        (\<lparr>year = 2024, month = 1, day = 3\<rparr>,
           [Some \<lparr>Close = Fin False 371, High = Fin False 373, Low = Fin False 368,
                  Open = Fin False 369, Volume = 23083500\<rparr>,
            Some \<lparr>Close = Fin False 184, High = Fin False 186, Low = Fin False 183,
                  Open = Fin False 184, Volume = 58414500\<rparr>]),
        (\<lparr>year = 2024, month = 1, day = 4\<rparr>,
           [Some \<lparr>Close = Fin False 368, High = Fin False 373, Low = Fin False 367,
                  Open = Fin False 370, Volume = 20901500\<rparr>,
            Some \<lparr>Close = Fin False 182, High = Fin False 183, Low = Fin False 181,
                  Open = Fin False 182, Volume = 71983600\<rparr>])]"

definition acme_quotes :: "(date \<times> quote) list" where
  "acme_quotes =
     [(\<lparr>year = 2024, month = 1, day = 2\<rparr>,
         \<lparr>Close = Fin False 100, High = Fin False 101, Low = Fin False 99,
          Open = Fin False 100, Volume = 1000\<rparr>),
      (\<lparr>year = 2024, month = 1, day = 3\<rparr>,
         \<lparr>Close = Fin False 110, High = Fin False 111, Low = Fin False 100,
          Open = Fin False 100, Volume = 1200\<rparr>),
      (\<lparr>year = 2024, month = 1, day = 4\<rparr>,
         \<lparr>Close = Fin False 99, High = Fin False 110, Low = Fin False 98,
          Open = Fin False 110, Volume = 900\<rparr>)]"

definition closes_100_110_99 :: table where
  "closes_100_110_99 = Flat acme_quotes"

definition mk_obs :: "int \<Rightarrow> int \<Rightarrow> int \<Rightarrow> string \<Rightarrow> 64 word \<Rightarrow> obs" where
  "mk_obs y m d t v =
     \<lparr>Close = Fin False 100, High = Fin False 101, Low = Fin False 99, Open = Fin False 100,
      Volume = v, Date = \<lparr>year = y, month = m, day = d\<rparr>, Ticker = t,
      Daily_Return = Fin False 1\<rparr>"

definition acme_history :: "obs list" where
  "acme_history =
     [mk_obs 2021 3 15 ''ACME'' 500, mk_obs 2021 3 15 ''ZETA'' 70,
      mk_obs 2021 3 16 ''ACME'' 300,
      mk_obs 2022 11 1 ''ACME'' 40,
      mk_obs 2024 5 30 ''ACME'' 8, mk_obs 2024 5 31 ''ACME'' 9,
      mk_obs 2024 5 30 ''ZETA'' 2, mk_obs 2024 6 28 ''ACME'' 6]"

definition acme_selected :: "obs list" where
  "acme_selected =
     [mk_obs 2021 3 15 ''ACME'' 500, mk_obs 2021 3 16 ''ACME'' 300,
      mk_obs 2022 11 1 ''ACME'' 40, mk_obs 2024 5 30 ''ACME'' 8,
      mk_obs 2024 5 31 ''ACME'' 9, mk_obs 2024 6 28 ''ACME'' 6]"

definition acme_recent :: "obs list" where
  "acme_recent =
     [mk_obs 2024 5 30 ''ACME'' 8, mk_obs 2024 5 31 ''ACME'' 9, mk_obs 2024 6 28 ''ACME'' 6]"

definition four_days :: raw_frame where
  "four_days =
     \<lparr>columns = map Plain [''Open'', ''High'', ''Low'', ''Close'', ''Volume''],
      records =
        [(\<lparr>year = 2023, month = 1, day = 1\<rparr>,
            [F (Fin False 100), F (Fin False 102), F (Fin False 99), F (Fin False 100), I 1000]),
         (\<lparr>year = 2023, month = 1, day = 2\<rparr>,
            [F (Fin False 100), F (Fin False 111), F (Fin False 100), F (Fin False 110), I 1200]),
         (\<lparr>year = 2023, month = 1, day = 3\<rparr>,
            [F (Fin False 110), F (Fin False 110), F (Fin False 98), F (Fin False 99), I 900]),
         (\<lparr>year = 2023, month = 1, day = 4\<rparr>,
            [F (Fin False 99), F (Fin False 100), F (Fin False 97), F (Fin False 99), I 800])]\<rparr>"

definition example_to_datetime :: "string \<Rightarrow> exn + date" where
  "example_to_datetime s =
     (if s = ''2023-01-01'' then Inr \<lparr>year = 2023, month = 1, day = 1\<rparr>
      else if s = ''2023-01-05'' then Inr \<lparr>year = 2023, month = 1, day = 5\<rparr>
      else Inl (ValueError (''Unknown datetime string format, unable to parse: '' @ s)))"

definition example_download :: "string \<Rightarrow> date \<Rightarrow> date \<Rightarrow> exn + raw_frame" where
  "example_download ticker start_date end_date =
     (if ticker = ''AAPL'' then Inr four_days else Inr \<lparr>columns = [], records = []\<rparr>)"

definition two_digits :: "int \<Rightarrow> string" where
  "two_digits n = (if n < 10 then ''0'' else []) @ show_nat (nat n)"

definition iso_format :: "date \<Rightarrow> string" where
  "iso_format d =
     show_nat (nat (year d)) @ ''-'' @ two_digits (month d) @ ''-'' @ two_digits (day d)
       @ '' 00:00:00''"

section \<open>Properties\<close>

text \<open>
  C5. When the table fetched for the requested tickers is empty, \<^verbatim>\<open>get_stock_data\<close> shows the
  warning "No data found for the given tickers" and returns \<^verbatim>\<open>None\<close>: no observations, and
  no exception leaves the function.
\<close>

theorem get_stock_data_empty:
  assumes "download ticker_symbols period = Inr all_data" and "empty_table all_data"
  shows "get_stock_data pad download ticker_symbols period =
           ([Warning ''No data found for the given tickers. Please check the symbols.''], None)"
  using assms by (simp add: get_stock_data_def)

theorem get_stock_data_empty_witness:
  "(\<lambda>ts p. Inr (Flat [])) [''AAPL''] ''max'' = (Inr (Flat []) :: exn + table)
   \<and> empty_table (Flat [])
   \<and> get_stock_data True (\<lambda>ts p. Inr (Flat [])) [''AAPL''] ''max'' =
       ([Warning ''No data found for the given tickers. Please check the symbols.''], None)"
  using get_stock_data_empty [of "\<lambda>ts p. Inr (Flat [])" "[''AAPL'']" "''max''" "Flat []" True]
  by simp

text \<open>
  C10. \<^verbatim>\<open>get_stock_data\<close> returns \<^verbatim>\<open>None\<close> both when the download raises and when the fetched
  table is empty, so the two returned values are equal, and the page takes the same fallback
  branch (the warning of line 293) for both.
\<close>

theorem get_stock_data_none_indistinguishable:
  assumes "d1 ticker_symbols period = Inl e"
    and "d2 ticker_symbols period = Inr all_data" and "empty_table all_data"
  shows "snd (get_stock_data pad d1 ticker_symbols period) = None
       \<and> snd (get_stock_data pad d2 ticker_symbols period) = None
       \<and> load_branch (snd (get_stock_data pad d1 ticker_symbols period)) =
           load_branch (snd (get_stock_data pad d2 ticker_symbols period))
       \<and> load_branch (snd (get_stock_data pad d1 ticker_symbols period)) =
           Inl (Warning ''No stock data was loaded. Please check tickers and try again.'')"
  using assms by (simp add: get_stock_data_def load_branch_def)

theorem get_stock_data_none_indistinguishable_witness:
  "snd (get_stock_data True (\<lambda>ts p. Inl (OtherError ''timeout'')) [''AAPL''] ''max'') = None
   \<and> snd (get_stock_data True (\<lambda>ts p. Inr (Multi [''AAPL''] [])) [''AAPL''] ''max'') = None
   \<and> load_branch (snd (get_stock_data True (\<lambda>ts p. Inl (OtherError ''timeout''))
                        [''AAPL''] ''max'')) =
       load_branch (snd (get_stock_data True (\<lambda>ts p. Inr (Multi [''AAPL''] []))
                        [''AAPL''] ''max''))"
  using get_stock_data_none_indistinguishable
          [of "\<lambda>ts p. Inl (OtherError ''timeout'')" "[''AAPL'']" "''max''" "OtherError ''timeout''"
              "\<lambda>ts p. Inr (Multi [''AAPL''] [])" "Multi [''AAPL''] []" True]
  by simp

subsection \<open>Returns of \<^verbatim>\<open>get_stock_data\<close>\<close>

lemma fdiv_NaN_right [simp]: "fdiv x NaN = NaN"
  by (cases x) simp_all

lemma fsub_NaN_left [simp]: "fsub NaN y = NaN"
  by (simp add: fsub_def)

lemma length_pct_change_grouped [simp]:
  "length (pct_change_grouped pad prev rs) = length rs"
  by (induction rs arbitrary: prev) (simp_all add: Let_def)

lemma Ticker_with_return [simp]: "Ticker (with_return r x) = Ticker r"
  and Date_with_return [simp]: "Date (with_return r x) = Date r"
  and Close_with_return [simp]: "Close (with_return r x) = Close r"
  and Volume_with_return [simp]: "Volume (with_return r x) = Volume r"
  and Daily_Return_with_return [simp]: "Daily_Return (with_return r x) = x"
  by (simp_all add: with_return_def)

lemma Ticker_long_row [simp]: "Ticker (long_row d t q) = t"
  and Date_long_row [simp]: "Date (long_row d t q) = d"
  and Close_long_row [simp]: "Close (long_row d t q) = Close q"
  and Volume_long_row [simp]: "Volume (long_row d t q) = Volume q"
  by (simp_all add: long_row_def)

lemma returns_frame_Nil [simp]: "returns_frame pad prev [] = []"
  by (simp add: returns_frame_def assign_return_def times_100_def)

lemma returns_frame_Cons:
  "returns_frame pad prev (r # rs) =
     with_return r (fmul (fsub (fdiv
         (if pad \<and> is_nan (Close r)
          then (case prev (Ticker r) of None \<Rightarrow> Close r | Some p \<Rightarrow> p) else Close r)
         (case prev (Ticker r) of None \<Rightarrow> NaN | Some p \<Rightarrow> p)) (Fin False 1)) (Fin False 100))
     # returns_frame pad
         (prev(Ticker r \<mapsto> (if pad \<and> is_nan (Close r)
             then (case prev (Ticker r) of None \<Rightarrow> Close r | Some p \<Rightarrow> p) else Close r))) rs"
  by (simp add: returns_frame_def assign_return_def times_100_def Let_def)

lemma group_dates_returns_frame:
  "map Date (filter (\<lambda>b. Ticker b = t) (returns_frame pad prev df)) =
   map Date (filter (\<lambda>r. Ticker r = t) df)"
  by (induction df arbitrary: prev) (simp_all add: returns_frame_Cons)

lemma group_head_returns_frame:
  "prev t = None \<Longrightarrow> filter (\<lambda>b. Ticker b = t) (returns_frame pad prev df) = b # bs
     \<Longrightarrow> is_nan (Daily_Return b)"
proof (induction df arbitrary: prev)
  case Nil
  then show ?case by simp
next
  case (Cons r rs)
  show ?case
  proof (cases "Ticker r = t")
    case True
    with Cons.prems show ?thesis
      by (auto simp: returns_frame_Cons is_nan_def)
  next
    case False
    with Cons.prems have "filter (\<lambda>b. Ticker b = t)
        (returns_frame pad (prev(Ticker r \<mapsto> (if pad \<and> is_nan (Close r)
             then (case prev (Ticker r) of None \<Rightarrow> Close r | Some p \<Rightarrow> p) else Close r))) rs) = b # bs"
      by (simp add: returns_frame_Cons)
    moreover from False Cons.prems(1) have "(prev(Ticker r \<mapsto> (if pad \<and> is_nan (Close r)
             then (case prev (Ticker r) of None \<Rightarrow> Close r | Some p \<Rightarrow> p) else Close r))) t = None"
      by simp
    ultimately show ?thesis by (rule Cons.IH [rotated])
  qed
qed

lemma filter_stack_row:
  "filter (\<lambda>r. Ticker r = t) (stack_row tickers (d, cells)) =
   concat (map (\<lambda>(t, c). case c of None \<Rightarrow> [] | Some q \<Rightarrow> [long_row d t q])
     (filter (\<lambda>y. fst y = t) (zip tickers cells)))"
proof -
  have "filter (\<lambda>r. Ticker r = t)
          (concat (map (\<lambda>(t, c). case c of None \<Rightarrow> [] | Some q \<Rightarrow> [long_row d t q]) zs)) =
        concat (map (\<lambda>(t, c). case c of None \<Rightarrow> [] | Some q \<Rightarrow> [long_row d t q])
          (filter (\<lambda>y. fst y = t) zs))" for zs :: "(string \<times> quote option) list"
    by (induction zs) (auto split: option.splits)
  then show ?thesis
    by (simp add: stack_row_def sort_key_stable)
qed

lemma filter_zip_distinct:
  "distinct ts \<Longrightarrow> length (filter (\<lambda>y. fst y = t) (zip ts cs)) \<le> 1"
proof (induction ts arbitrary: cs)
  case Nil
  then show ?case by simp
next
  case (Cons a ts)
  show ?case
  proof (cases cs)
    case Nil
    then show ?thesis by simp
  next
    case (Cons c cs')
    have "a = t \<Longrightarrow> filter (\<lambda>y. fst y = t) (zip ts cs') = []"
      using Cons.prems by (auto simp: filter_empty_conv dest: set_zip_leftD)
    with Cons Cons.IH [of cs'] Cons.prems show ?thesis by auto
  qed
qed

lemma group_stack_row:
  assumes "distinct tickers"
  shows "filter (\<lambda>r. Ticker r = t) (stack_row tickers (d, cells)) = []
       \<or> (\<exists>r. filter (\<lambda>r. Ticker r = t) (stack_row tickers (d, cells)) = [r] \<and> Date r = d)"
proof -
  have "length (filter (\<lambda>y. fst y = t) (zip tickers cells)) \<le> 1"
    using assms by (rule filter_zip_distinct)
  then consider "filter (\<lambda>y. fst y = t) (zip tickers cells) = []"
    | y where "filter (\<lambda>y. fst y = t) (zip tickers cells) = [y]"
    by (cases "filter (\<lambda>y. fst y = t) (zip tickers cells)") (auto simp: length_Suc_conv)
  then show ?thesis
  proof cases
    case 1
    then show ?thesis by (simp add: filter_stack_row)
  next
    case 2
    then show ?thesis
      by (cases y) (auto simp: filter_stack_row split: option.splits)
  qed
qed

lemma Date_stack: "r \<in> set (stack tickers rows) \<Longrightarrow> Date r \<in> fst ` set rows"
  by (force simp: stack_def stack_row_def split: option.splits prod.splits)

lemma group_stack_ascending:
  assumes "distinct tickers" and "strictly_ascending (map fst rows)"
  shows "strictly_ascending (map Date (filter (\<lambda>r. Ticker r = t) (stack tickers rows)))"
  using assms(2)
proof (induction rows)
  case Nil
  then show ?case by (simp add: stack_def strictly_ascending_def)
next
  case (Cons dr rows)
  obtain d cells where dr: "dr = (d, cells)" by (cases dr)
  have later: "\<forall>r\<in>set (stack tickers rows). toordinal d < toordinal (Date r)"
    using Cons.prems dr by (auto simp: strictly_ascending_def dest!: Date_stack)
  have IH: "strictly_ascending (map Date (filter (\<lambda>r. Ticker r = t) (stack tickers rows)))"
    using Cons by (simp add: strictly_ascending_def)
  have split: "stack tickers (dr # rows) = stack_row tickers (d, cells) @ stack tickers rows"
    by (simp add: stack_def dr)
  from group_stack_row [OF assms(1), of t d cells] show ?case
  proof
    assume "filter (\<lambda>r. Ticker r = t) (stack_row tickers (d, cells)) = []"
    with IH show ?thesis by (simp add: split)
  next
    assume "\<exists>r. filter (\<lambda>r. Ticker r = t) (stack_row tickers (d, cells)) = [r] \<and> Date r = d"
    then obtain r where "filter (\<lambda>r. Ticker r = t) (stack_row tickers (d, cells)) = [r]"
      and "Date r = d" by blast
    with IH later show ?thesis
      by (auto simp: split strictly_ascending_def)
  qed
qed

lemma dropna_filter_ticker:
  "filter (\<lambda>b. Ticker b = t) (dropna xs) = dropna (filter (\<lambda>b. Ticker b = t) xs)"
  by (induction xs) (simp_all add: dropna_def)

lemma first_of_group_dropped:
  assumes grp: "filter (\<lambda>r. Ticker r = t) df = r0 # rest"
    and later: "\<forall>r\<in>set rest. toordinal (Date r0) < toordinal (Date r)"
    and mem: "b \<in> set (dropna (returns_frame pad Map.empty df))" and tb: "Ticker b = t"
  shows "Date b \<noteq> Date r0"
proof -
  let ?G = "filter (\<lambda>b. Ticker b = t) (returns_frame pad Map.empty df)"
  have dates: "map Date ?G = Date r0 # map Date rest"
    by (simp add: group_dates_returns_frame grp)
  then obtain g0 gs where G: "?G = g0 # gs" and gs: "map Date gs = map Date rest"
    by (cases ?G) auto
  have "is_nan (Daily_Return g0)"
    using group_head_returns_frame [OF _ G] by simp
  then have "dropna ?G = dropna gs"
    by (simp add: G dropna_def)
  moreover from mem tb have "b \<in> set (dropna ?G)"
    by (simp add: dropna_filter_ticker [symmetric])
  ultimately have "b \<in> set gs"
    by (simp add: dropna_def)
  then have "Date b \<in> set (map Date rest)"
    unfolding gs [symmetric] by simp
  with later have "toordinal (Date r0) < toordinal (Date b)"
    by auto
  then show ?thesis by auto
qed

lemma long_table_groups_ascending:
  assumes "well_formed_table all_data" and "long_table ticker_symbols all_data = Inr df"
  shows "strictly_ascending (map Date (filter (\<lambda>r. Ticker r = t) df))"
proof (cases all_data)
  case (Multi tickers rows)
  with assms show ?thesis
    by (auto intro: group_stack_ascending)
next
  case (Flat rows)
  with assms obtain t0 ts where ts: "ticker_symbols = t0 # ts"
    and df: "df = map (\<lambda>(d, q). long_row d t0 q) rows"
    by (auto split: list.splits)
  have "map Date df = map fst rows"
    by (simp add: df split_def)
  moreover have "filter (\<lambda>r. Ticker r = t) df = (if t0 = t then df else [])"
    by (auto simp: df split_def filter_empty_conv)
  ultimately show ?thesis
    using assms(1) Flat by (simp add: strictly_ascending_def)
qed

text \<open>
  C1. For every non-empty table that yfinance returns (dates strictly ascending, one column
  group per ticker) and a non-empty ticker list, \<^verbatim>\<open>get_stock_data\<close> returns a frame; every
  row of it has a \<^verbatim>\<open>Daily_Return\<close> that is not NaN; and for every ticker, the first row of its
  group in the long table is the chronologically first one and no returned row has that
  ticker and that date.
\<close>

theorem get_stock_data_returns_defined:
  assumes dl: "download ticker_symbols period = Inr all_data"
    and ne: "\<not> empty_table all_data"
    and ts: "ticker_symbols \<noteq> []"
    and wf: "well_formed_table all_data"
  shows "\<exists>df out.
           long_table ticker_symbols all_data = Inr df
         \<and> snd (get_stock_data pad download ticker_symbols period) = Some out
         \<and> (\<forall>b\<in>set out. \<not> is_nan (Daily_Return b))
         \<and> (\<forall>t. case filter (\<lambda>r. Ticker r = t) df of
                   [] \<Rightarrow> True
                 | r0 # rest \<Rightarrow>
                     (\<forall>r\<in>set rest. toordinal (Date r0) < toordinal (Date r))
                   \<and> (\<forall>b\<in>set out. Ticker b = t \<longrightarrow> Date b \<noteq> Date r0))"
proof -
  obtain df where df: "long_table ticker_symbols all_data = Inr df"
    using ts by (cases all_data; cases ticker_symbols) auto
  let ?out = "dropna (returns_frame pad Map.empty df)"
  have out: "snd (get_stock_data pad download ticker_symbols period) = Some ?out"
    using dl ne df by (simp add: get_stock_data_def returns_frame_def)
  have defined: "\<forall>b\<in>set ?out. \<not> is_nan (Daily_Return b)"
    by (simp add: dropna_def)
  have first: "case filter (\<lambda>r. Ticker r = t) df of
                 [] \<Rightarrow> True
               | r0 # rest \<Rightarrow>
                   (\<forall>r\<in>set rest. toordinal (Date r0) < toordinal (Date r))
                 \<and> (\<forall>b\<in>set ?out. Ticker b = t \<longrightarrow> Date b \<noteq> Date r0)" for t
  proof (cases "filter (\<lambda>r. Ticker r = t) df")
    case Nil
    then show ?thesis by simp
  next
    case (Cons r0 rest)
    from long_table_groups_ascending [OF wf df, of t]
    have later: "\<forall>r\<in>set rest. toordinal (Date r0) < toordinal (Date r)"
      by (simp add: Cons strictly_ascending_def)
    with first_of_group_dropped [OF Cons] show ?thesis
      by (simp add: Cons)
  qed
  from df out defined first show ?thesis by blast
qed

theorem get_stock_data_returns_defined_witness:
  "(\<lambda>ts p. Inr two_tickers) [''MSFT'', ''AAPL''] ''max'' = (Inr two_tickers :: exn + table)
   \<and> \<not> empty_table two_tickers
   \<and> [''MSFT'', ''AAPL''] \<noteq> []
   \<and> well_formed_table two_tickers
   \<and> (\<exists>df out.
           long_table [''MSFT'', ''AAPL''] two_tickers = Inr df
         \<and> snd (get_stock_data True (\<lambda>ts p. Inr two_tickers) [''MSFT'', ''AAPL''] ''max'') = Some out
         \<and> (\<forall>b\<in>set out. \<not> is_nan (Daily_Return b))
         \<and> (\<forall>t. case filter (\<lambda>r. Ticker r = t) df of
                   [] \<Rightarrow> True
                 | r0 # rest \<Rightarrow>
                     (\<forall>r\<in>set rest. toordinal (Date r0) < toordinal (Date r))
                   \<and> (\<forall>b\<in>set out. Ticker b = t \<longrightarrow> Date b \<noteq> Date r0)))"
proof -
  have ne: "\<not> empty_table two_tickers"
    by (simp add: two_tickers_def)
  have wf: "well_formed_table two_tickers"
    by (simp add: two_tickers_def strictly_ascending_def toordinal_def days_before_year_def
          days_before_month_def is_leap_def)
  from get_stock_data_returns_defined
         [of "\<lambda>ts p. Inr two_tickers" "[''MSFT'', ''AAPL'']" "''max''" two_tickers True,
          OF _ ne _ wf]
    ne wf
  show ?thesis by simp
qed

lemma group_returns_frame:
  assumes "\<forall>r\<in>set df. Ticker r = t \<longrightarrow> \<not> is_nan (Close r)"
  shows "map Daily_Return (filter (\<lambda>b. Ticker b = t) (returns_frame pad prev df)) =
         group_pct (case prev t of None \<Rightarrow> NaN | Some p \<Rightarrow> p)
           (map Close (filter (\<lambda>r. Ticker r = t) df))"
  using assms
  by (induction df arbitrary: prev) (simp_all add: returns_frame_Cons pct_return_def)

lemma group_pct_nth:
  "0 < i \<Longrightarrow> i < length cs \<Longrightarrow> group_pct p cs ! i = pct_return (cs ! i) (cs ! (i - 1))"
proof (induction cs arbitrary: p i)
  case Nil
  then show ?case by simp
next
  case (Cons c cs)
  show ?case
  proof (cases "i = 1")
    case True
    with Cons.prems show ?thesis by (cases cs) simp_all
  next
    case False
    with Cons.prems obtain j where "i = Suc j" "0 < j" "j < length cs"
      by (cases i) auto
    with Cons.IH [of j c] show ?thesis
      by (cases j) simp_all
  qed
qed

lemma length_returns_frame [simp]: "length (returns_frame pad prev df) = length df"
  by (simp add: returns_frame_def assign_return_def times_100_def)

lemma length_group_returns_frame:
  "length (filter (\<lambda>b. Ticker b = t) (returns_frame pad prev df)) =
   length (filter (\<lambda>r. Ticker r = t) df)"
  using arg_cong [OF group_dates_returns_frame [of t pad prev df], of length] by simp

lemma returns_100_110_99_pad:
  "map_option (map Daily_Return)
     (snd (get_stock_data True (\<lambda>ts p. Inr closes_100_110_99) [''ACME''] ''max'')) =
   Some [Fin False (10 + 5 / 2 ^ 49), Fin True (10 - 1 / 2 ^ 49)]"
  by code_simp

lemma returns_100_110_99_no_pad:
  "map_option (map Daily_Return)
     (snd (get_stock_data False (\<lambda>ts p. Inr closes_100_110_99) [''ACME''] ''max'')) =
   Some [Fin False (10 + 5 / 2 ^ 49), Fin True (10 - 1 / 2 ^ 49)]"
  by code_simp

lemma returns_100_110_99:
  "map_option (map Daily_Return)
     (snd (get_stock_data pad (\<lambda>ts p. Inr closes_100_110_99) [''ACME''] ''max'')) =
   Some [Fin False (10 + 5 / 2 ^ 49), Fin True (10 - 1 / 2 ^ 49)]"
  using returns_100_110_99_pad returns_100_110_99_no_pad by (cases pad) simp_all

lemma difference_quotient_110_100:
  "fmul (fdiv (fsub (Fin False 110) (Fin False 100)) (Fin False 100)) (Fin False 100) =
   Fin False 10"
  by code_simp

lemma pct_return_110_100:
  "pct_return (Fin False 110) (Fin False 100) = Fin False (10 + 5 / 2 ^ 49)"
  by code_simp

text \<open>
  C2 (as amended). The frame returned is the frame of line 29 without its NaN rows, and in a
  ticker group without missing closes the \<^verbatim>\<open>Daily_Return\<close> computed at position \<open>i > 0\<close> is
  \<^verbatim>\<open>(close[i] / close[i-1] - 1) * 100\<close>, each operation rounded to binary64. For the closes
  100, 110, 99 the returned values are \<open>10 + 5 / 2^49\<close> and \<open>- (10 - 1 / 2^49)\<close>, which Python
  prints as 10.000000000000009 and -9.999999999999998.
\<close>

theorem daily_return_binary64:
  assumes dl: "download ticker_symbols period = Inr all_data"
    and ne: "\<not> empty_table all_data"
    and df: "long_table ticker_symbols all_data = Inr df"
    and closes: "\<forall>r\<in>set df. Ticker r = t \<longrightarrow> \<not> is_nan (Close r)"
    and i: "0 < i" "i < length (filter (\<lambda>r. Ticker r = t) df)"
  shows "snd (get_stock_data pad download ticker_symbols period) =
           Some (dropna (returns_frame pad Map.empty df))
       \<and> Daily_Return (filter (\<lambda>b. Ticker b = t) (returns_frame pad Map.empty df) ! i) =
           fmul (fsub (fdiv (Close (filter (\<lambda>r. Ticker r = t) df ! i))
                            (Close (filter (\<lambda>r. Ticker r = t) df ! (i - 1))))
                      (Fin False 1)) (Fin False 100)
       \<and> map_option (map Daily_Return)
           (snd (get_stock_data pad (\<lambda>ts p. Inr closes_100_110_99) [''ACME''] ''max'')) =
           Some [Fin False (10 + 5 / 2 ^ 49), Fin True (10 - 1 / 2 ^ 49)]"
proof -
  let ?G = "filter (\<lambda>b. Ticker b = t) (returns_frame pad Map.empty df)"
  let ?g = "filter (\<lambda>r. Ticker r = t) df"
  have "snd (get_stock_data pad download ticker_symbols period) =
          Some (dropna (returns_frame pad Map.empty df))"
    using dl ne df by (simp add: get_stock_data_def returns_frame_def)
  moreover have "Daily_Return (?G ! i) = map Daily_Return ?G ! i"
    using i by (simp add: length_group_returns_frame)
  moreover have "map Daily_Return ?G ! i = pct_return (map Close ?g ! i) (map Close ?g ! (i - 1))"
    using i by (simp add: group_returns_frame [OF closes] group_pct_nth del: nth_map)
  ultimately show ?thesis
    using i returns_100_110_99 [of pad] by (simp add: pct_return_def)
qed

theorem daily_return_binary64_witness:
  "(\<lambda>ts p. Inr closes_100_110_99) [''ACME''] ''max'' = (Inr closes_100_110_99 :: exn + table)
   \<and> \<not> empty_table closes_100_110_99
   \<and> long_table [''ACME''] closes_100_110_99 =
       Inr (map (\<lambda>(d, q). long_row d ''ACME'' q) acme_quotes)
   \<and> list_all (\<lambda>r. \<not> is_nan (Close r)) (map (\<lambda>(d, q). long_row d ''ACME'' q) acme_quotes)
   \<and> 0 < (1 :: nat)
   \<and> 1 < length (filter (\<lambda>r. Ticker r = ''ACME'')
                  (map (\<lambda>(d, q). long_row d ''ACME'' q) acme_quotes))
   \<and> Daily_Return (filter (\<lambda>b. Ticker b = ''ACME'')
        (returns_frame True Map.empty (map (\<lambda>(d, q). long_row d ''ACME'' q) acme_quotes)) ! 1) =
       fmul (fsub (fdiv (Fin False 110) (Fin False 100)) (Fin False 1)) (Fin False 100)"
proof -
  let ?df = "map (\<lambda>(d, q). long_row d ''ACME'' q) acme_quotes"
  have ne: "\<not> empty_table closes_100_110_99"
    by (simp add: closes_100_110_99_def acme_quotes_def)
  have df: "long_table [''ACME''] closes_100_110_99 = Inr ?df"
    by (simp add: closes_100_110_99_def)
  have closes: "\<forall>r\<in>set ?df. Ticker r = ''ACME'' \<longrightarrow> \<not> is_nan (Close r)"
    by (simp add: acme_quotes_def is_nan_def)
  have len: "1 < length (filter (\<lambda>r. Ticker r = ''ACME'') ?df)"
    by (simp add: acme_quotes_def)
  have "Close (filter (\<lambda>r. Ticker r = ''ACME'') ?df ! 1) = Fin False 110"
    and "Close (filter (\<lambda>r. Ticker r = ''ACME'') ?df ! (1 - 1)) = Fin False 100"
    by (simp_all add: acme_quotes_def)
  moreover have "list_all (\<lambda>r. \<not> is_nan (Close r)) ?df"
    by (simp add: acme_quotes_def is_nan_def)
  ultimately show ?thesis
    using daily_return_binary64
         [of "\<lambda>ts p. Inr closes_100_110_99" "[''ACME'']" "''max''" closes_100_110_99 ?df
             "''ACME''" 1 True, OF _ ne df closes _ len]
      ne df len
    by simp
qed

theorem daily_return_100_110_99_counterexample:
  "map_option (map Daily_Return)
     (snd (get_stock_data True (\<lambda>ts p. Inr closes_100_110_99) [''ACME''] ''max'')) \<noteq>
   Some [Fin False 10, Fin True 10]
   \<and> pct_return (Fin False 110) (Fin False 100) \<noteq>
     fmul (fdiv (fsub (Fin False 110) (Fin False 100)) (Fin False 100)) (Fin False 100)"
  by (simp add: returns_100_110_99_pad difference_quotient_110_100 pct_return_110_100)

subsection \<open>Period filter\<close>

lemma period_days:
  "p \<noteq> P_All \<Longrightarrow> \<exists>n. period_options p = Days n \<and> 0 < n \<and> n \<le> 5 * 365"
  by (cases p) simp_all

lemma filtered_data_finite:
  assumes "period_options p = Days n" and "0 < n" and "n < toordinal end_date"
    and "toordinal end_date \<le> 3652059"
  shows "filtered_data end_date p full =
           Inr (filter (\<lambda>r. toordinal end_date - n \<le> toordinal (Date r)) full)"
proof -
  from assms(1) have "p \<noteq> P_All" by auto
  with assms show ?thesis
    by (simp add: filtered_data_def date_minus_days_def)
qed

text \<open>
  C3. With the period "All" the selection is the full history of the selected ticker, every
  row as it is and in its order; with a finite period of \<open>days\<close> days it is exactly the rows
  of that ticker whose date is on or after \<open>today - days\<close>, that bound included. (The
  subtraction of line 248 is in the range of \<^verbatim>\<open>date\<close> for every today after year 5.)
\<close>

theorem selected_data_window:
  assumes "5 * 365 < toordinal end_date" and "toordinal end_date \<le> 3652059"
  shows "selected_data end_date P_All t full = Inr (filter (\<lambda>r. Ticker r = t) full)
       \<and> (p \<noteq> P_All \<longrightarrow>
            (\<exists>days. period_options p = Days days
               \<and> selected_data end_date p t full =
                   Inr (filter (\<lambda>r. Ticker r = t \<and> toordinal end_date - days \<le> toordinal (Date r))
                          full)))"
proof (intro conjI impI)
  show "selected_data end_date P_All t full = Inr (filter (\<lambda>r. Ticker r = t) full)"
    by (simp add: selected_data_def filtered_data_def)
next
  assume "p \<noteq> P_All"
  then obtain n where n: "period_options p = Days n" "0 < n" "n \<le> 5 * 365"
    using period_days by blast
  with assms have "filtered_data end_date p full =
      Inr (filter (\<lambda>r. toordinal end_date - n \<le> toordinal (Date r)) full)"
    by (intro filtered_data_finite) simp_all
  then have "selected_data end_date p t full =
      Inr (filter (\<lambda>r. Ticker r = t \<and> toordinal end_date - n \<le> toordinal (Date r)) full)"
    by (simp add: selected_data_def conj_commute)
  with n(1) show "\<exists>days. period_options p = Days days
      \<and> selected_data end_date p t full =
          Inr (filter (\<lambda>r. Ticker r = t \<and> toordinal end_date - days \<le> toordinal (Date r)) full)"
    by blast
qed

lemma toordinal_2024_06_30: "toordinal \<lparr>year = 2024, month = 6, day = 30\<rparr> = 739067"
  by (simp add: toordinal_def days_before_year_def days_before_month_def is_leap_def)



text \<open>
  C4. When no row has the selected ticker and lies in the window, the selection is the empty
  frame, no exception is raised, and the first tab shows its warning instead of reading a
  last row.
\<close>

theorem selected_data_no_match:
  assumes "5 * 365 < toordinal end_date" and "toordinal end_date \<le> 3652059"
    and "\<forall>r\<in>set full. Ticker r = t \<longrightarrow> \<not> within_window end_date p r"
  shows "selected_data end_date p t full = Inr []
       \<and> tab1 [] =
           No_Data (Warning ''No data available for the selected ticker in this time period.'')"
proof -
  have "selected_data end_date p t full = Inr []"
  proof (cases "p = P_All")
    case True
    with assms(3) have "\<forall>r\<in>set full. Ticker r \<noteq> t"
      by (auto simp: within_window_def)
    with True selected_data_window [OF assms(1,2), of t full p] show ?thesis
      by (simp add: filter_empty_conv)
  next
    case False
    with selected_data_window [OF assms(1,2), of t full p]
    obtain days where "period_options p = Days days"
      and "selected_data end_date p t full =
             Inr (filter (\<lambda>r. Ticker r = t \<and> toordinal end_date - days \<le> toordinal (Date r)) full)"
      by blast
    with assms(3) show ?thesis
      by (auto simp: within_window_def filter_empty_conv)
  qed
  then show ?thesis by (simp add: tab1_def)
qed


theorem selected_data_window_witness:
  "5 * 365 < toordinal \<lparr>year = 2024, month = 6, day = 30\<rparr>
   \<and> toordinal \<lparr>year = 2024, month = 6, day = 30\<rparr> \<le> 3652059
   \<and> selected_data \<lparr>year = 2024, month = 6, day = 30\<rparr> P_All ''ZETA'' acme_history =
       Inr [mk_obs 2021 3 15 ''ZETA'' 70, mk_obs 2024 5 30 ''ZETA'' 2]
   \<and> P_1M \<noteq> P_All
   \<and> selected_data \<lparr>year = 2024, month = 6, day = 30\<rparr> P_1M ''ACME'' acme_history =
       Inr [mk_obs 2024 5 31 ''ACME'' 9, mk_obs 2024 6 28 ''ACME'' 6]"
proof -
  let ?today = "\<lparr>year = 2024, month = 6, day = 30\<rparr>"
  have lo: "5 * 365 < toordinal ?today" and hi: "toordinal ?today \<le> 3652059"
    by (simp_all add: toordinal_2024_06_30)
  note window = selected_data_window [OF lo hi]
  have zeta: "filter (\<lambda>r. Ticker r = ''ZETA'') acme_history =
      [mk_obs 2021 3 15 ''ZETA'' 70, mk_obs 2024 5 30 ''ZETA'' 2]"
    by code_simp
  have acme: "filter (\<lambda>r. Ticker r = ''ACME'' \<and> toordinal ?today - 30 \<le> toordinal (Date r))
      acme_history = [mk_obs 2024 5 31 ''ACME'' 9, mk_obs 2024 6 28 ''ACME'' 6]"
    by code_simp
  from window [of "''ZETA''" acme_history P_1M]
  have "selected_data ?today P_All ''ZETA'' acme_history =
      Inr [mk_obs 2021 3 15 ''ZETA'' 70, mk_obs 2024 5 30 ''ZETA'' 2]"
    unfolding zeta by (rule conjunct1)
  moreover from window [of "''ACME''" acme_history P_1M]
  obtain days where "period_options P_1M = Days days"
    and "selected_data ?today P_1M ''ACME'' acme_history =
      Inr (filter (\<lambda>r. Ticker r = ''ACME'' \<and> toordinal ?today - days \<le> toordinal (Date r))
             acme_history)"
    by auto
  then have "selected_data ?today P_1M ''ACME'' acme_history =
      Inr [mk_obs 2024 5 31 ''ACME'' 9, mk_obs 2024 6 28 ''ACME'' 6]"
    using acme by simp
  ultimately show ?thesis using lo hi by simp
qed

theorem selected_data_no_match_witness:
  "5 * 365 < toordinal \<lparr>year = 2024, month = 6, day = 30\<rparr>
   \<and> toordinal \<lparr>year = 2024, month = 6, day = 30\<rparr> \<le> 3652059
   \<and> list_all (\<lambda>r. Ticker r = ''ZETA'' \<longrightarrow>
         \<not> within_window \<lparr>year = 2024, month = 6, day = 30\<rparr> P_1M r) acme_history
   \<and> selected_data \<lparr>year = 2024, month = 6, day = 30\<rparr> P_1M ''ZETA'' acme_history = Inr []
   \<and> list_all (\<lambda>r. Ticker r = ''OMEGA'' \<longrightarrow>
         \<not> within_window \<lparr>year = 2024, month = 6, day = 30\<rparr> P_All r) acme_history
   \<and> selected_data \<lparr>year = 2024, month = 6, day = 30\<rparr> P_All ''OMEGA'' acme_history = Inr []"
proof -
  let ?today = "\<lparr>year = 2024, month = 6, day = 30\<rparr>"
  have lo: "5 * 365 < toordinal ?today" and hi: "toordinal ?today \<le> 3652059"
    by (simp_all add: toordinal_2024_06_30)
  have zeta: "list_all (\<lambda>r. Ticker r = ''ZETA'' \<longrightarrow> \<not> within_window ?today P_1M r) acme_history"
    by code_simp
  have omega: "list_all (\<lambda>r. Ticker r = ''OMEGA'' \<longrightarrow> \<not> within_window ?today P_All r)
      acme_history"
    by code_simp
  from zeta have "\<forall>r\<in>set acme_history. Ticker r = ''ZETA'' \<longrightarrow> \<not> within_window ?today P_1M r"
    by (simp only: list_all_iff)
  from selected_data_no_match [OF lo hi this]
  have "selected_data ?today P_1M ''ZETA'' acme_history = Inr []" by (rule conjunct1)
  moreover
  from omega
  have "\<forall>r\<in>set acme_history. Ticker r = ''OMEGA'' \<longrightarrow> \<not> within_window ?today P_All r"
    by (simp only: list_all_iff)
  from selected_data_no_match [OF lo hi this]
  have "selected_data ?today P_All ''OMEGA'' acme_history = Inr []" by (rule conjunct1)
  ultimately show ?thesis using lo hi zeta omega by simp
qed

subsection \<open>Calendar arithmetic\<close>

lemma div_offset:
  assumes "0 < (n::int)" and "0 \<le> r" and "r < n"
  shows "(q * n + r) div n = q"
  using assms by (simp add: div_pos_pos_trivial)

lemma mod_offset:
  assumes "0 < (n::int)" and "0 \<le> r" and "r < n"
  shows "(q * n + r) mod n = r"
  using assms by (simp add: mod_pos_pos_trivial)

lemma next_month_same_year:
  assumes "(k::int) mod 12 \<noteq> 11"
  shows "(k + 1) div 12 = k div 12" and "(k + 1) mod 12 = k mod 12 + 1"
proof -
  define q where "q = k div 12"
  define r where "r = k mod 12"
  have k: "k + 1 = q * 12 + (r + 1)" by (simp add: q_def r_def)
  have "0 \<le> r" "r < 12" by (simp_all add: r_def)
  with assms have r: "0 \<le> r + 1" "r + 1 < 12" by (simp_all add: r_def)
  have "(q * 12 + (r + 1)) div 12 = q" using r by (intro div_offset) simp_all
  then show "(k + 1) div 12 = k div 12" unfolding k [symmetric] by (simp only: q_def)
  have "(q * 12 + (r + 1)) mod 12 = r + 1" using r by (intro mod_offset) simp_all
  then show "(k + 1) mod 12 = k mod 12 + 1" unfolding k [symmetric] by (simp only: r_def)
qed

lemma next_month_next_year:
  assumes "(k::int) mod 12 = 11"
  shows "(k + 1) div 12 = k div 12 + 1" and "(k + 1) mod 12 = 0"
proof -
  define q where "q = k div 12"
  have "k = q * 12 + k mod 12" by (simp add: q_def)
  with assms have k: "k + 1 = (q + 1) * 12 + 0" by (simp add: algebra_simps)
  have "((q + 1) * 12 + 0) div 12 = q + 1" by (intro div_offset) simp_all
  then show "(k + 1) div 12 = k div 12 + 1" unfolding k [symmetric] by (simp only: q_def)
  have "((q + 1) * 12 + 0) mod 12 = (0::int)" by (intro mod_offset) simp_all
  then show "(k + 1) mod 12 = 0" unfolding k [symmetric] .
qed

lemma div_step:
  assumes "0 < (n::int)"
  shows "y div n - (y - 1) div n = (if y mod n = 0 then 1 else 0)"
proof -
  define q where "q = y div n"
  define r where "r = y mod n"
  have y: "y = q * n + r" by (simp add: q_def r_def)
  have r: "0 \<le> r" "r < n" using assms by (simp_all add: r_def)
  show ?thesis
  proof (cases "r = 0")
    case True
    with y have "y - 1 = (q - 1) * n + (n - 1)" by (simp add: algebra_simps)
    then have "(y - 1) div n = ((q - 1) * n + (n - 1)) div n" by (rule arg_cong)
    also have "\<dots> = q - 1" using assms by (intro div_offset) simp_all
    finally show ?thesis using True by (simp add: q_def r_def)
  next
    case False
    from y have "y - 1 = q * n + (r - 1)" by simp
    then have "(y - 1) div n = (q * n + (r - 1)) div n" by (rule arg_cong)
    also have "\<dots> = q" using assms r False by (intro div_offset) simp_all
    finally show ?thesis using False by (simp add: q_def r_def)
  qed
qed

lemma leap_step:
  "(if y mod 4 = 0 then 1 else 0) - (if y mod 100 = 0 then 1 else 0)
     + (if y mod 400 = 0 then 1 else 0) = (if is_leap y then 1 else (0::int))"
proof -
  have a: "y mod 100 \<noteq> 0 \<Longrightarrow> y mod 400 \<noteq> 0" by auto
  have b: "y mod 4 \<noteq> 0 \<Longrightarrow> y mod 100 \<noteq> 0" by auto
  show ?thesis
  proof (cases "y mod 4 = 0")
    case False
    from b [OF False] have 1: "y mod 100 \<noteq> 0" .
    from a [OF 1] have 2: "y mod 400 \<noteq> 0" .
    from False 1 2 show ?thesis by (simp add: is_leap_def)
  next
    case True
    show ?thesis
    proof (cases "y mod 100 = 0")
      case False
      from a [OF False] have "y mod 400 \<noteq> 0" .
      with True False show ?thesis by (simp add: is_leap_def)
    next
      case c: True
      with True show ?thesis by (simp add: is_leap_def)
    qed
  qed
qed

lemma days_before_year_Suc:
  "days_before_year (y + 1) = days_before_year y + 365 + (if is_leap y then 1 else 0)"
proof -
  have 4: "y div 4 - (y - 1) div 4 = (if y mod 4 = 0 then 1 else 0)"
    by (rule div_step) simp
  have 100: "y div 100 - (y - 1) div 100 = (if y mod 100 = 0 then 1 else 0)"
    by (rule div_step) simp
  have 400: "y div 400 - (y - 1) div 400 = (if y mod 400 = 0 then 1 else 0)"
    by (rule div_step) simp
  have "days_before_year (y + 1) - days_before_year y =
      365 + ((y div 4 - (y - 1) div 4) - (y div 100 - (y - 1) div 100)
          + (y div 400 - (y - 1) div 400))"
    by (simp add: days_before_year_def Let_def algebra_simps)
  also have "\<dots> = 365 + (if is_leap y then 1 else 0)"
    by (simp only: 4 100 400 leap_step)
  finally show ?thesis by simp
qed

lemma days_before_month_Suc:
  assumes "1 \<le> m" and "m \<le> 11"
  shows "days_before_month y (m + 1) = days_before_month y m + days_in_month y m"
proof -
  from assms have "m = 1 \<or> m = 2 \<or> m = 3 \<or> m = 4 \<or> m = 5 \<or> m = 6 \<or> m = 7 \<or> m = 8
      \<or> m = 9 \<or> m = 10 \<or> m = 11"
    by arith
  then show ?thesis
    by (elim disjE) (simp_all add: days_before_month_def days_in_month_def)
qed

lemma month_first_Suc:
  "month_first (k + 1) = month_first k + days_in_month (k div 12) (k mod 12 + 1)"
proof (cases "k mod 12 = 11")
  case True
  note next_month_next_year [OF True]
  with True show ?thesis
    by (simp add: month_first_def days_before_year_Suc days_before_month_def
          days_in_month_def)
next
  case False
  note same = next_month_same_year [OF False]
  have "0 \<le> k mod 12" "k mod 12 < 12" by simp_all
  with False have "1 \<le> k mod 12 + 1" "k mod 12 + 1 \<le> 11" by linarith+
  from days_before_month_Suc [OF this, of "k div 12"] show ?thesis
    by (simp only: month_first_def same)
qed

lemma days_in_month_pos: "1 \<le> m \<Longrightarrow> m \<le> 12 \<Longrightarrow> 28 \<le> days_in_month y m"
proof -
  assume "1 \<le> m" "m \<le> 12"
  then have "m = 1 \<or> m = 2 \<or> m = 3 \<or> m = 4 \<or> m = 5 \<or> m = 6 \<or> m = 7 \<or> m = 8
      \<or> m = 9 \<or> m = 10 \<or> m = 11 \<or> m = 12"
    by arith
  then show ?thesis
    by (elim disjE) (simp_all add: days_in_month_def)
qed

lemma month_first_less: "month_first k < month_first (k + 1)"
proof -
  have "0 \<le> k mod 12" "k mod 12 < 12" by simp_all
  then have "28 \<le> days_in_month (k div 12) (k mod 12 + 1)"
    by (intro days_in_month_pos) linarith+
  then show ?thesis by (simp only: month_first_Suc)
qed

lemma month_first_mono: "k \<le> k' \<Longrightarrow> month_first k \<le> month_first k'"
proof (induction "nat (k' - k)" arbitrary: k')
  case 0
  then show ?case by simp
next
  case (Suc n)
  then have "n = nat ((k' - 1) - k)" "k \<le> k' - 1" by linarith+
  then have "month_first k \<le> month_first (k' - 1)" by (rule Suc.hyps(1))
  with month_first_less [of "k' - 1"] show ?case by simp
qed

lemma month_index_div_mod:
  assumes "1 \<le> month d" and "month d \<le> 12"
  shows "month_index d div 12 = year d" and "month_index d mod 12 + 1 = month d"
proof -
  from assms have r: "0 \<le> month d - 1" "month d - 1 < 12" by simp_all
  have "(year d * 12 + (month d - 1)) div 12 = year d"
    using r by (intro div_offset) simp_all
  then show "month_index d div 12 = year d" by (simp only: month_index_def)
  have "(year d * 12 + (month d - 1)) mod 12 = month d - 1"
    using r by (intro mod_offset) simp_all
  then show "month_index d mod 12 + 1 = month d" by (simp only: month_index_def)
qed

lemma toordinal_month_first:
  assumes "valid_date d"
  shows "toordinal d = month_first (month_index d) + day d"
proof -
  from assms have "1 \<le> month d" "month d \<le> 12" by (simp_all add: valid_date_def)
  from month_index_div_mod [OF this] show ?thesis
    by (simp only: toordinal_def month_first_def)
qed

lemma month_index_mono:
  assumes a: "valid_date a" and b: "valid_date b" and le: "toordinal a \<le> toordinal b"
  shows "month_index a \<le> month_index b"
proof (rule ccontr)
  assume "\<not> month_index a \<le> month_index b"
  then have "month_index b + 1 \<le> month_index a" by simp
  then have 1: "month_first (month_index b + 1) \<le> month_first (month_index a)"
    by (rule month_first_mono)
  from b have "1 \<le> month b" "month b \<le> 12" by (simp_all add: valid_date_def)
  from month_index_div_mod [OF this] b
  have "day b \<le> days_in_month (month_index b div 12) (month_index b mod 12 + 1)"
    by (simp add: valid_date_def)
  then have 2: "toordinal b \<le> month_first (month_index b + 1)"
    by (simp only: toordinal_month_first [OF b] month_first_Suc)
  from a have "1 \<le> day a" by (simp add: valid_date_def)
  then have 3: "month_first (month_index a) < toordinal a"
    by (simp only: toordinal_month_first [OF a])
  from 1 2 3 le show False by linarith
qed

subsection \<open>Volume chart\<close>

lemma fold_min_date:
  "fold (\<lambda>x m. if toordinal x < toordinal m then x else m) xs d \<in> set (d # xs)
   \<and> (\<forall>y\<in>set (d # xs).
         toordinal (fold (\<lambda>x m. if toordinal x < toordinal m then x else m) xs d) \<le> toordinal y)"
proof (induction xs arbitrary: d)
  case Nil
  then show ?case by simp
next
  case (Cons x xs)
  from Cons [of "if toordinal x < toordinal d then x else d"] show ?case
    by (auto split: if_splits)
qed

lemma fold_max_date:
  "fold (\<lambda>x m. if toordinal m < toordinal x then x else m) xs d \<in> set (d # xs)
   \<and> (\<forall>y\<in>set (d # xs).
         toordinal y \<le> toordinal (fold (\<lambda>x m. if toordinal m < toordinal x then x else m) xs d))"
proof (induction xs arbitrary: d)
  case Nil
  then show ?case by simp
next
  case (Cons x xs)
  from Cons [of "if toordinal d < toordinal x then x else d"] show ?case
    by (auto split: if_splits)
qed

lemma min_date_Some:
  assumes "min_date ds = Some lo"
  shows "lo \<in> set ds" and "\<forall>d\<in>set ds. toordinal lo \<le> toordinal d"
  using assms fold_min_date by (auto simp: min_date_def split: list.splits)

lemma max_date_Some:
  assumes "max_date ds = Some hi"
  shows "hi \<in> set ds" and "\<forall>d\<in>set ds. toordinal d \<le> toordinal hi"
  using assms fold_max_date by (auto simp: max_date_def split: list.splits)

lemma min_max_date_nonempty:
  "ds \<noteq> [] \<Longrightarrow> \<exists>lo hi. min_date ds = Some lo \<and> max_date ds = Some hi"
  by (cases ds) (simp_all add: min_date_def max_date_def)

lemma min_max_date_empty [simp]: "min_date [] = None" "max_date [] = None"
  by (simp_all add: min_date_def max_date_def)

lemma sum_list_absent:
  fixes v :: "'b::comm_monoid_add"
  shows "a \<notin> set ks \<Longrightarrow> sum_list (map (\<lambda>k. if a = k then v else 0) ks) = 0"
  by (induction ks) auto

lemma sum_list_single:
  fixes v :: "'b::comm_monoid_add"
  assumes "distinct ks" and "a \<in> set ks"
  shows "sum_list (map (\<lambda>k. if a = k then v else 0) ks) = v"
  using assms by (induction ks) (auto simp: sum_list_absent)

lemma sum_list_partition:
  fixes f :: "'a \<Rightarrow> 'b::comm_monoid_add"
  assumes "distinct ks" and "\<forall>x\<in>set xs. g x \<in> set ks"
  shows "sum_list (map (\<lambda>k. sum_list (map f (filter (\<lambda>x. g x = k) xs))) ks) =
         sum_list (map f xs)"
  using assms(2)
proof (induction xs)
  case Nil
  then show ?case by simp
next
  case (Cons x xs)
  have "sum_list (map (\<lambda>k. sum_list (map f (filter (\<lambda>x. g x = k) (x # xs)))) ks) =
        sum_list (map (\<lambda>k. (if g x = k then f x else 0)
                          + sum_list (map f (filter (\<lambda>x. g x = k) xs))) ks)"
    by (intro arg_cong [where f = sum_list] map_cong) auto
  also have "\<dots> = sum_list (map (\<lambda>k. if g x = k then f x else 0) ks)
                 + sum_list (map (\<lambda>k. sum_list (map f (filter (\<lambda>x. g x = k) xs))) ks)"
    by (simp add: sum_list_addf)
  also have "sum_list (map (\<lambda>k. if g x = k then f x else 0) ks) = f x"
    using assms(1) Cons.prems by (intro sum_list_single) simp_all
  finally show ?case using Cons by simp
qed


lemma month_index_month_start [simp]: "month_index (month_start k) = k"
  by (simp add: month_index_def month_start_def)

lemma same_month_iff:
  assumes "valid_date d"
  shows "month_index d = k \<longleftrightarrow> year d = year (month_start k) \<and> month d = month (month_start k)"
proof -
  from assms have m: "1 \<le> month d" "month d \<le> 12" by (simp_all add: valid_date_def)
  note dm = month_index_div_mod [OF m]
  show ?thesis
  proof
    assume "month_index d = k"
    with dm show "year d = year (month_start k) \<and> month d = month (month_start k)"
      by (simp add: month_start_def)
  next
    assume "year d = year (month_start k) \<and> month d = month (month_start k)"
    then have "year d = k div 12" "month d - 1 = k mod 12" by (simp_all add: month_start_def)
    then have "month_index d = k div 12 * 12 + k mod 12" by (simp only: month_index_def)
    then show "month_index d = k" by simp
  qed
qed

lemma months_in_range:
  assumes valid: "\<forall>r\<in>set df. valid_date (Date r)"
    and lo: "min_date (map Date df) = Some lo" and hi: "max_date (map Date df) = Some hi"
    and r: "r \<in> set df"
  shows "month_index (Date r) \<in> set [month_index lo..month_index hi]"
proof -
  from min_date_Some [OF lo] valid r
  have "valid_date lo" "toordinal lo \<le> toordinal (Date r)" by auto
  moreover from max_date_Some [OF hi] valid r
  have "valid_date hi" "toordinal (Date r) \<le> toordinal hi" by auto
  moreover from valid r have "valid_date (Date r)" by blast
  ultimately show ?thesis
    by (simp add: month_index_mono)
qed

lemma volume_chart_monthly:
  assumes "time_delta_days df = Some n" and "730 < n"
  shows "\<exists>lo hi. min_date (map Date df) = Some lo \<and> max_date (map Date df) = Some hi
           \<and> volume_chart df =
               (Monthly,
                map (\<lambda>k. (month_start k,
                          sum_list (map Volume (filter (\<lambda>r. month_index (Date r) = k) df))))
                  [month_index lo..month_index hi])"
  using assms
  by (auto simp: volume_chart_def time_delta_days_def resample_MS_sum_def
      split: option.splits)

text \<open>
  C7. For a frame of valid dates whose span exceeds 730 days the chart is monthly and its
  bars add up to the sum of the daily volumes of the frame (in int64 arithmetic, as both
  sums are computed).
\<close>

theorem monthly_volume_total:
  assumes valid: "\<forall>r\<in>set df. valid_date (Date r)"
    and span: "time_delta_days df = Some n" "730 < n"
  shows "fst (volume_chart df) = Monthly
       \<and> sum_list (map snd (snd (volume_chart df))) = sum_list (map Volume df)"
proof -
  from volume_chart_monthly [OF span] obtain lo hi
    where lo: "min_date (map Date df) = Some lo" and hi: "max_date (map Date df) = Some hi"
      and chart: "volume_chart df =
        (Monthly,
         map (\<lambda>k. (month_start k,
                   sum_list (map Volume (filter (\<lambda>r. month_index (Date r) = k) df))))
           [month_index lo..month_index hi])"
    by blast
  have "sum_list (map (\<lambda>k. sum_list (map Volume (filter (\<lambda>r. month_index (Date r) = k) df)))
          [month_index lo..month_index hi]) = sum_list (map Volume df)"
    using months_in_range [OF valid lo hi]
    by (intro sum_list_partition) simp_all
  then show ?thesis
    by (simp add: chart comp_def)
qed

text \<open>
  C6. The chart is monthly exactly when the span between the earliest and the latest date
  exceeds 730 days. Then every bar is labelled with the first day of a month and holds the sum
  of the volumes of the rows of that calendar month, and every row's month has a bar.
  Otherwise the bars are the daily volumes of the frame, row by row.
\<close>

theorem volume_granularity:
  assumes valid: "\<forall>r\<in>set df. valid_date (Date r)"
  shows "(fst (volume_chart df) = Monthly \<longleftrightarrow> (\<exists>n. time_delta_days df = Some n \<and> 730 < n))
       \<and> (fst (volume_chart df) = Monthly \<longrightarrow>
            (\<forall>(d, v)\<in>set (snd (volume_chart df)).
               day d = 1
             \<and> v = sum_list (map Volume
                     (filter (\<lambda>r. year (Date r) = year d \<and> month (Date r) = month d) df)))
          \<and> (\<forall>r\<in>set df.
               \<lparr>year = year (Date r), month = month (Date r), day = 1\<rparr>
                 \<in> fst ` set (snd (volume_chart df))))
       \<and> (fst (volume_chart df) \<noteq> Monthly \<longrightarrow>
            volume_chart df = (Daily, map (\<lambda>r. (Date r, Volume r)) df))"
proof (intro conjI impI)
  show iff: "fst (volume_chart df) = Monthly \<longleftrightarrow> (\<exists>n. time_delta_days df = Some n \<and> 730 < n)"
    by (auto simp: volume_chart_def split: option.splits)
  show "volume_chart df = (Daily, map (\<lambda>r. (Date r, Volume r)) df)"
    if "fst (volume_chart df) \<noteq> Monthly"
    using that by (auto simp: volume_chart_def split: option.splits if_splits)
  assume "fst (volume_chart df) = Monthly"
  with iff obtain n where span: "time_delta_days df = Some n" "730 < n" by blast
  from volume_chart_monthly [OF span] obtain lo hi
    where lo: "min_date (map Date df) = Some lo" and hi: "max_date (map Date df) = Some hi"
      and chart: "volume_chart df =
        (Monthly,
         map (\<lambda>k. (month_start k,
                   sum_list (map Volume (filter (\<lambda>r. month_index (Date r) = k) df))))
           [month_index lo..month_index hi])"
    by blast
  have same: "filter (\<lambda>r. month_index (Date r) = k) df =
      filter (\<lambda>r. year (Date r) = year (month_start k) \<and> month (Date r) = month (month_start k)) df"
    for k
    using valid by (intro filter_cong refl same_month_iff) blast
  show "\<forall>(d, v)\<in>set (snd (volume_chart df)).
          day d = 1
        \<and> v = sum_list (map Volume
                (filter (\<lambda>r. year (Date r) = year d \<and> month (Date r) = month d) df))"
    by (auto simp: chart same) (simp add: month_start_def)
  show "\<forall>r\<in>set df.
          \<lparr>year = year (Date r), month = month (Date r), day = 1\<rparr>
            \<in> fst ` set (snd (volume_chart df))"
  proof
    fix r assume r: "r \<in> set df"
    from valid r have "1 \<le> month (Date r)" "month (Date r) \<le> 12"
      by (auto simp: valid_date_def)
    from month_index_div_mod [OF this]
    have "month_start (month_index (Date r)) =
        \<lparr>year = year (Date r), month = month (Date r), day = 1\<rparr>"
      by (simp add: month_start_def)
    moreover from months_in_range [OF valid lo hi r]
    have "month_start (month_index (Date r)) \<in> fst ` set (snd (volume_chart df))"
      by (simp add: chart image_image)
    ultimately show "\<lparr>year = year (Date r), month = month (Date r), day = 1\<rparr>
        \<in> fst ` set (snd (volume_chart df))" by simp
  qed
qed

lemma acme_selected_valid: "list_all (\<lambda>r. valid_date (Date r)) acme_selected"
  by code_simp

lemma acme_recent_valid: "list_all (\<lambda>r. valid_date (Date r)) acme_recent"
  by code_simp

lemma acme_selected_span: "time_delta_days acme_selected = Some 1201"
  by code_simp

lemma acme_recent_span: "time_delta_days acme_recent = Some 29"
  by code_simp

lemma acme_selected_total: "sum_list (map Volume acme_selected) = 863"
  by code_simp


theorem volume_granularity_witness:
  "list_all (\<lambda>r. valid_date (Date r)) acme_selected
   \<and> time_delta_days acme_selected = Some 1201
   \<and> fst (volume_chart acme_selected) = Monthly
   \<and> \<lparr>year = 2022, month = 11, day = 1\<rparr> \<in> fst ` set (snd (volume_chart acme_selected))
   \<and> list_all (\<lambda>r. valid_date (Date r)) acme_recent
   \<and> time_delta_days acme_recent = Some 29
   \<and> volume_chart acme_recent = (Daily, map (\<lambda>r. (Date r, Volume r)) acme_recent)"
proof -
  have v1: "\<forall>r\<in>set acme_selected. valid_date (Date r)"
    using acme_selected_valid by (simp only: list_all_iff)
  have v2: "\<forall>r\<in>set acme_recent. valid_date (Date r)"
    using acme_recent_valid by (simp only: list_all_iff)
  note g1 = volume_granularity [OF v1]
  note g2 = volume_granularity [OF v2]
  from g1 acme_selected_span have m: "fst (volume_chart acme_selected) = Monthly"
    by simp
  have "mk_obs 2022 11 1 ''ACME'' 40 \<in> set acme_selected"
    by (simp add: acme_selected_def)
  with g1 m have "\<lparr>year = year (Date (mk_obs 2022 11 1 ''ACME'' 40)),
       month = month (Date (mk_obs 2022 11 1 ''ACME'' 40)), day = 1\<rparr>
      \<in> fst ` set (snd (volume_chart acme_selected))"
    by blast
  then have b: "\<lparr>year = 2022, month = 11, day = 1\<rparr> \<in> fst ` set (snd (volume_chart acme_selected))"
    by (simp add: mk_obs_def)
  from g2 acme_recent_span have "fst (volume_chart acme_recent) \<noteq> Monthly"
    by simp
  with g2 have d: "volume_chart acme_recent = (Daily, map (\<lambda>r. (Date r, Volume r)) acme_recent)"
    by blast
  from acme_selected_valid acme_selected_span m b acme_recent_valid acme_recent_span d
  show ?thesis by (intro conjI)
qed

theorem monthly_volume_total_witness:
  "list_all (\<lambda>r. valid_date (Date r)) acme_selected
   \<and> time_delta_days acme_selected = Some 1201
   \<and> (730 :: int) < 1201
   \<and> sum_list (map snd (snd (volume_chart acme_selected))) = 863
   \<and> sum_list (map Volume acme_selected) = 863"
proof -
  have v1: "\<forall>r\<in>set acme_selected. valid_date (Date r)"
    using acme_selected_valid by (simp only: list_all_iff)
  from monthly_volume_total [OF v1 acme_selected_span]
  have "sum_list (map snd (snd (volume_chart acme_selected))) = sum_list (map Volume acme_selected)"
    by simp
  with acme_selected_total acme_selected_valid acme_selected_span show ?thesis by simp
qed

subsection \<open>Batch export scripts\<close>

text \<open>
  C8 (as amended). When \<^verbatim>\<open>pd.to_datetime\<close> raises \<^verbatim>\<open>ValueError\<close> for the start date string, or
  accepts it and raises for the end date string, a script stops before any download and
  writes no file: the first script prints its message and leaves through \<^verbatim>\<open>exit()\<close>, the
  second ends with the uncaught exception, whose exit status is 1.
\<close>

theorem invalid_date_aborts:
  assumes "to_datetime start_date_str = Inl (ValueError m)
         \<or> (\<exists>start_date. to_datetime start_date_str = Inr start_date
               \<and> to_datetime end_date_str = Inl (ValueError m))"
  shows "script_1 pad to_datetime download str start_date_str end_date_str =
           \<lparr>printed = [''Invalid date format. Please use YYYY-MM-DD.''], downloads = [],
            csv = None, status = SystemExit None\<rparr>
       \<and> script_2 pad to_datetime download str start_date_str end_date_str =
           \<lparr>printed = [], downloads = [], csv = None, status = Uncaught (ValueError m)\<rparr>
       \<and> exit_status (status (script_2 pad to_datetime download str start_date_str end_date_str))
           = 1"
  using assms by (auto simp: script_1_def script_2_def)

theorem invalid_date_aborts_witness:
  "example_to_datetime ''2023-01-01'' = Inr \<lparr>year = 2023, month = 1, day = 1\<rparr>
   \<and> example_to_datetime ''2023-13-45'' =
       Inl (ValueError ''Unknown datetime string format, unable to parse: 2023-13-45'')
   \<and> script_1 True example_to_datetime example_download iso_format ''2023-01-01'' ''2023-13-45'' =
       \<lparr>printed = [''Invalid date format. Please use YYYY-MM-DD.''], downloads = [],
        csv = None, status = SystemExit None\<rparr>
   \<and> script_2 True example_to_datetime example_download iso_format ''2023-01-01'' ''2023-13-45'' =
       \<lparr>printed = [], downloads = [], csv = None,
        status = Uncaught (ValueError ''Unknown datetime string format, unable to parse: 2023-13-45'')\<rparr>"
proof -
  have s: "example_to_datetime ''2023-01-01'' = Inr \<lparr>year = 2023, month = 1, day = 1\<rparr>"
    by (simp add: example_to_datetime_def)
  have e: "example_to_datetime ''2023-13-45'' =
      Inl (ValueError ''Unknown datetime string format, unable to parse: 2023-13-45'')"
    by (simp add: example_to_datetime_def)
  from s e have "example_to_datetime ''2023-01-01'' =
        Inl (ValueError ''Unknown datetime string format, unable to parse: 2023-13-45'')
      \<or> (\<exists>start_date. example_to_datetime ''2023-01-01'' = Inr start_date
            \<and> example_to_datetime ''2023-13-45'' =
                Inl (ValueError ''Unknown datetime string format, unable to parse: 2023-13-45''))"
    by blast
  from invalid_date_aborts
         [where to_datetime = example_to_datetime and start_date_str = "''2023-01-01''"
            and end_date_str = "''2023-13-45''" and pad = True and download = example_download
            and str = iso_format, OF this] s e
  show ?thesis by blast
qed

theorem invalid_date_exit_status_counterexample:
  "exit_status (status (script_1 True example_to_datetime example_download iso_format
      ''2023-13-45'' ''2023-01-05'')) = 0"
  by (simp add: script_1_def example_to_datetime_def)

lemma script_2_four_days_pad:
  "map_option (\<lambda>(path, f). (header f, map last (body f)))
     (csv (script_2 True example_to_datetime example_download iso_format
             ''2023-01-01'' ''2023-01-05'')) =
   Some (map Plain [''Date'', ''Open'', ''High'', ''Low'', ''Close'', ''Volume'', ''Ticker'',
                    ''Daily_Return''],
         [N (F NaN), N (F (Fin False (10 + 5 / 2 ^ 49))), N (F (Fin True (10 - 1 / 2 ^ 49))),
          N (F (Fin False 0))])"
  by code_simp

lemma script_2_four_days_no_pad:
  "map_option (\<lambda>(path, f). (header f, map last (body f)))
     (csv (script_2 False example_to_datetime example_download iso_format
             ''2023-01-01'' ''2023-01-05'')) =
   Some (map Plain [''Date'', ''Open'', ''High'', ''Low'', ''Close'', ''Volume'', ''Ticker'',
                    ''Daily_Return''],
         [N (F NaN), N (F (Fin False (10 + 5 / 2 ^ 49))), N (F (Fin True (10 - 1 / 2 ^ 49))),
          N (F (Fin False 0))])"
  by code_simp

lemma script_1_four_days_pad:
  "map_option (\<lambda>(path, f). (header f, map last (body f)))
     (csv (script_1 True example_to_datetime example_download iso_format
             ''2023-01-01'' ''2023-01-05'')) =
   Some (map Plain [''Date'', ''Open'', ''High'', ''Low'', ''Close'', ''Volume'', ''Ticker'',
                    ''Daily_Return''],
         [N (F (Fin False (10 + 5 / 2 ^ 49))), N (F (Fin True (10 - 1 / 2 ^ 49))),
          N (F (Fin False 0))])"
  by code_simp

lemma script_1_four_days_no_pad:
  "map_option (\<lambda>(path, f). (header f, map last (body f)))
     (csv (script_1 False example_to_datetime example_download iso_format
             ''2023-01-01'' ''2023-01-05'')) =
   Some (map Plain [''Date'', ''Open'', ''High'', ''Low'', ''Close'', ''Volume'', ''Ticker'',
                    ''Daily_Return''],
         [N (F (Fin False (10 + 5 / 2 ^ 49))), N (F (Fin True (10 - 1 / 2 ^ 49))),
          N (F (Fin False 0))])"
  by code_simp

text \<open>
  C9. A run from 2023-01-01 to 2023-01-05 in which one ticker has four days of data: the first
  script writes the eight columns in the stated order and three rows, the leading day
  dropped; the second script writes the same columns and four rows, the leading day among
  them with a NaN \<^verbatim>\<open>Daily_Return\<close>.
\<close>

theorem batch_export_four_days:
  "map_option (\<lambda>(path, f). (header f, length (body f)))
     (csv (script_1 pad example_to_datetime example_download iso_format
             ''2023-01-01'' ''2023-01-05'')) =
   Some (map Plain [''Date'', ''Open'', ''High'', ''Low'', ''Close'', ''Volume'', ''Ticker'',
                    ''Daily_Return''], 3)
   \<and> map_option (\<lambda>(path, f). (header f, length (body f), hd (map last (body f))))
     (csv (script_2 pad example_to_datetime example_download iso_format
             ''2023-01-01'' ''2023-01-05'')) =
   Some (map Plain [''Date'', ''Open'', ''High'', ''Low'', ''Close'', ''Volume'', ''Ticker'',
                    ''Daily_Return''], 4, N (F NaN))"
proof (cases pad)
  case True
  with script_1_four_days_pad script_2_four_days_pad show ?thesis
    by (auto simp: map_option_case split: option.splits)
next
  case False
  with script_1_four_days_no_pad script_2_four_days_no_pad show ?thesis
    by (auto simp: map_option_case split: option.splits)
qed

end
